theory Spec2Isabelle
  imports Main "HOL-Library.Multiset"
begin

section \<open>Data model (backend/app/models.py)\<close>

text \<open>
  The four SQLAlchemy models become records, one field per column. Primary and foreign
  keys are Python integers (\<open>int\<close>), nullable columns are \<open>option\<close>s, timestamps are
  integers ordered like \<open>datetime\<close>. Columns of type \<open>Float\<close> hold values of an opaque
  type \<open>'f\<close>: no property below depends on how floating point numbers are represented,
  and the three float operations the routes use are passed in as \<open>float_ops\<close>.
  Two models have columns of the same name, so every field carries the initial of its
  table.
\<close>

record 'f user =
  u_id :: int
  u_username :: string
  u_email :: string
  u_password_hash :: string
  u_is_freelancer :: bool
  u_bio :: "string option"
  u_skills :: "string option"
  u_ranking_score :: 'f

record 'f project =
  p_id :: int
  p_title :: string
  p_description :: string
  p_budget :: 'f
  p_status :: string
  p_created_at :: int
  p_client_id :: int
  p_freelancer_id :: "int option"

record 'f bid =
  b_id :: int
  b_amount :: 'f
  b_proposal :: string
  b_created_at :: int
  b_project_id :: int
  b_freelancer_id :: int

record review =
  r_id :: int
  r_rating :: int
  r_comment :: "string option"
  r_created_at :: int
  r_project_id :: int
  r_reviewer_id :: int
  r_reviewee_id :: int

text \<open>The database: one list of rows per table, in insertion order.\<close>

record 'f db =
  users :: "'f user list"
  projects :: "'f project list"
  bids :: "'f bid list"
  reviews :: "review list"

text \<open>
  \<open>post_review\<close> binds the value of the key \<open>rating\<close> to the Integer column as the body
  gives it, without a check. The value is modelled when it is a JSON integer or a JSON
  string. An engine that does not type its columns stores a text there, and a row of
  Review with a text as rating is not a \<open>review\<close>: it is a \<open>text_review\<close>.
\<close>

datatype rating_value = RInt int | RText string

record text_review =
  tr_id :: int
  tr_rating :: string
  tr_comment :: "string option"
  tr_created_at :: int
  tr_project_id :: int
  tr_reviewer_id :: int
  tr_reviewee_id :: int

text \<open>
  What a request leaves committed: a database, or (after a \<open>post_review\<close> only) a database
  and one more row of Review whose rating is a text. Every route is modelled on a
  database; a request on a store that holds a text rating is not modelled.
\<close>

datatype 'f committed = Clean "'f db" | TextRating "'f db" text_review

text \<open>
  Python's float arithmetic as used by \<open>update_user_ranking\<close>: the literal \<open>0.0\<close>,
  true division of two integers, and \<open>round(x, 2)\<close>.
\<close>

record 'f float_ops =
  fl_zero :: 'f
  fl_truediv :: "int \<Rightarrow> int \<Rightarrow> 'f"
  fl_round2 :: "'f \<Rightarrow> 'f"

text \<open>
  A failed request: the HTTP status and the message of the JSON body. \<open>get_or_404\<close>
  aborts with 404; an exception no route catches (\<open>KeyError\<close> on a missing key of the
  request body, \<open>AttributeError\<close> on a missing user) ends the request with status 500.
\<close>

datatype error = HttpError nat string

definition not_found :: error where
  "not_found = HttpError 404 ''Not Found''"

definition uncaught :: "string \<Rightarrow> error" where
  "uncaught exn = HttpError 500 exn"

section \<open>Storage boundary\<close>

text \<open>
  What the database itself checks when a row is inserted. A model declares a key with
  \<open>primary_key=True\<close> and a unique constraint with \<open>unique=True\<close> on a column or with a
  \<open>UniqueConstraint\<close> in \<open>__table_args__\<close>; each is given here as the relation "these two
  rows agree on the constrained columns". Every model declares \<open>primary_key=True\<close> on
  \<open>id\<close>. \<open>User\<close> declares \<open>unique=True\<close> on \<open>username\<close> and on \<open>email\<close>. \<open>Project\<close>,
  \<open>Bid\<close> and \<open>Review\<close> declare no unique column and have no \<open>__table_args__\<close>.
\<close>

type_synonym 'r unique_constraint = "'r \<Rightarrow> 'r \<Rightarrow> bool"

definition User_unique :: "'f user unique_constraint list" where
  "User_unique = [\<lambda>a b. u_id a = u_id b, \<lambda>a b. u_username a = u_username b,
     \<lambda>a b. u_email a = u_email b]"

definition Project_unique :: "'f project unique_constraint list" where
  "Project_unique = [\<lambda>a b. p_id a = p_id b]"

definition Bid_unique :: "'f bid unique_constraint list" where
  "Bid_unique = [\<lambda>a b. b_id a = b_id b]"

definition Review_unique :: "review unique_constraint list" where
  "Review_unique = [\<lambda>a b. r_id a = r_id b]"

definition violates :: "'r unique_constraint list \<Rightarrow> 'r list \<Rightarrow> 'r \<Rightarrow> bool" where
  "violates cs rows new = list_ex (\<lambda>c. list_ex (\<lambda>r. c r new) rows) cs"

text \<open>
  \<open>db.session.add(row); db.session.commit()\<close>: the row is appended unless the key or a
  unique constraint of its table rejects it, in which case the commit raises
  \<open>IntegrityError\<close>, which no route catches.
\<close>

definition insert_row :: "'r unique_constraint list \<Rightarrow> 'r list \<Rightarrow> 'r \<Rightarrow> error + 'r list" where
  "insert_row cs rows new =
     (if violates cs rows new then Inl (uncaught ''IntegrityError'') else Inr (rows @ [new]))"

text \<open>
  The integer primary key the store gives a new row: one more than the largest key of
  the table, 1 for an empty table. The routes never choose an id themselves.
\<close>

definition next_id :: "int list \<Rightarrow> int" where
  "next_id ids = (if ids = [] then 1 else Max (set ids) + 1)"

section \<open>Queries\<close>

text \<open>\<open>Model.query.get(id)\<close>: the row with this primary key, if any.\<close>

definition get_user :: "'f db \<Rightarrow> int \<Rightarrow> 'f user option" where
  "get_user d uid = find (\<lambda>u. u_id u = uid) (users d)"

definition get_project :: "'f db \<Rightarrow> int \<Rightarrow> 'f project option" where
  "get_project d pid = find (\<lambda>p. p_id p = pid) (projects d)"

definition get_bid :: "'f db \<Rightarrow> int \<Rightarrow> 'f bid option" where
  "get_bid d bid = find (\<lambda>b. b_id b = bid) (bids d)"

text \<open>\<open>user.reviews_received.all()\<close>: the rows of Review whose reviewee is the user.\<close>

definition reviews_received :: "'f db \<Rightarrow> int \<Rightarrow> review list" where
  "reviews_received d uid = filter (\<lambda>r. r_reviewee_id r = uid) (reviews d)"

text \<open>\<open>Bid.query.filter_by(project_id=id, freelancer_id=user.id).first()\<close>\<close>

definition existing_bid :: "'f db \<Rightarrow> int \<Rightarrow> int \<Rightarrow> 'f bid option" where
  "existing_bid d pid uid =
     find (\<lambda>b. b_project_id b = pid \<and> b_freelancer_id b = uid) (bids d)"

text \<open>\<open>Review.query.filter_by(project_id=id, reviewer_id=user.id).first()\<close>\<close>

definition existing_review :: "'f db \<Rightarrow> int \<Rightarrow> int \<Rightarrow> review option" where
  "existing_review d pid uid =
     find (\<lambda>r. r_project_id r = pid \<and> r_reviewer_id r = uid) (reviews d)"

section \<open>Request bodies\<close>



record 'f project_data =
  pd_title :: "string option"
  pd_description :: "string option"
  pd_budget :: "'f option"
  pd_status :: "string option"

record accept_data =
  ad_bid_id :: "int option"

record 'f bid_data =
  bd_amount :: "'f option"
  bd_proposal :: "string option"

record review_data =
  rd_rating :: "rating_value option"
  rd_comment :: "string option"

section \<open>Ranking (routes.py, update_user_ranking)\<close>

definition update_user_ranking :: "'f float_ops \<Rightarrow> 'f db \<Rightarrow> int \<Rightarrow> 'f db" where
  "update_user_ranking F d user_id =
     (case get_user d user_id of
        None \<Rightarrow> d
      | Some user \<Rightarrow>
          let rs = reviews_received d (u_id user);
              score = (if rs = [] then fl_zero F
                       else let total_rating = sum_list (map r_rating rs)
                            in fl_round2 F (fl_truediv F total_rating (int (length rs))))
          in d\<lparr>users := map (\<lambda>u. if u_id u = u_id user
                                  then u\<lparr>u_ranking_score := score\<rparr> else u) (users d)\<rparr>)"

text \<open>
  \<open>update_user_ranking\<close> on a store that holds one row \<open>t\<close> of Review with a text rating.
  When \<open>t\<close> is among the reviews the user received, \<open>sum(r.rating for r in reviews)\<close> adds
  a text to an integer and raises \<open>TypeError\<close>, before anything is written. The result is
  the database part of the store.
\<close>

definition update_user_ranking_text ::
  "'f float_ops \<Rightarrow> 'f db \<Rightarrow> text_review \<Rightarrow> int \<Rightarrow> error + 'f db" where
  "update_user_ranking_text F d t user_id =
     (case get_user d user_id of
        None \<Rightarrow> Inr d
      | Some user \<Rightarrow>
          if tr_reviewee_id t = u_id user then Inl (uncaught ''TypeError'')
          else Inr (update_user_ranking F d user_id))"

text \<open>
  The score the specification asks for: the mean of the ratings of the reviews received,
  rounded to two decimals, and 0.0 without reviews.
\<close>

definition spec_ranking_score :: "'f float_ops \<Rightarrow> 'f db \<Rightarrow> int \<Rightarrow> 'f" where
  "spec_ranking_score F d uid =
     (let ratings = map r_rating (filter (\<lambda>r. r_reviewee_id r = uid) (reviews d))
      in if ratings = [] then fl_zero F
         else fl_round2 F (fl_truediv F (sum_list ratings) (int (length ratings))))"

section \<open>Authentication and profile routes\<close>



section \<open>Project routes\<close>

text \<open>
  SQL \<open>LIKE\<close> without an \<open>ESCAPE\<close> clause: \<open>%\<close> in the pattern matches any sequence of
  characters, \<open>_\<close> matches any one character, and any other character matches the
  characters the collation of the storage engine identifies with it. The engine is
  configured outside these sources, so its case folding \<open>cf\<close> is passed in.
\<close>

fun sql_like :: "(char \<Rightarrow> char) \<Rightarrow> string \<Rightarrow> string \<Rightarrow> bool" where
  "sql_like cf [] s = (s = [])"
| "sql_like cf (c # p) [] = (c = CHR ''%'' \<and> sql_like cf p [])"
| "sql_like cf (c # p) (x # s) =
     (if c = CHR ''%'' then sql_like cf p (x # s) \<or> sql_like cf (c # p) s
      else (c = CHR ''_'' \<or> cf c = cf x) \<and> sql_like cf p s)"

text \<open>The folding of ASCII letters to lower case, which is what SQLite's \<open>LIKE\<close> applies.\<close>

definition ascii_lower :: "char \<Rightarrow> char" where
  "ascii_lower c =
     (case map_of (zip ''ABCDEFGHIJKLMNOPQRSTUVWXYZ'' ''abcdefghijklmnopqrstuvwxyz'') c of
        None \<Rightarrow> c
      | Some l \<Rightarrow> l)"

text \<open>
  \<open>get_projects\<close>; \<open>skill_query\<close> is the query parameter \<open>skill\<close>, if given. Rows
  with the same timestamp come in an order the engine chooses; here they keep the order
  of the table.
\<close>

definition get_projects :: "(char \<Rightarrow> char) \<Rightarrow> 'f db \<Rightarrow> string option \<Rightarrow> 'f project list" where
  "get_projects cf d skill_query =
     (let query = filter (\<lambda>p. p_status p = ''open'') (projects d);
          query = (case skill_query of
                     None \<Rightarrow> query
                   | Some s \<Rightarrow>
                       if s = [] then query
                       else filter (\<lambda>p. sql_like cf (CHR ''%'' # s @ [CHR ''%''])
                                          (p_description p)) query)
      in sort_key (\<lambda>p. - p_created_at p) query)"

text \<open>
  What the specification says the listing returns for a filter: the open projects whose
  description contains the filter as a substring, up to the folding of case.
\<close>

definition contains_folded :: "(char \<Rightarrow> char) \<Rightarrow> string \<Rightarrow> string \<Rightarrow> bool" where
  "contains_folded cf s t =
     list_ex (\<lambda>i. map cf (take (length s) (drop i t)) = map cf s) [0 ..< Suc (length t)]"

definition create_project ::
  "int \<Rightarrow> 'f db \<Rightarrow> int \<Rightarrow> 'f project_data \<Rightarrow> (error + 'f project) \<times> 'f db" where
  "create_project now d actor data =
     (case pd_title data of
        None \<Rightarrow> (Inl (uncaught ''KeyError''), d)
      | Some title \<Rightarrow>
     (case pd_description data of
        None \<Rightarrow> (Inl (uncaught ''KeyError''), d)
      | Some description \<Rightarrow>
     (case pd_budget data of
        None \<Rightarrow> (Inl (uncaught ''KeyError''), d)
      | Some budget \<Rightarrow>
     (case get_user d actor of
        None \<Rightarrow> (Inl (uncaught ''AttributeError''), d)
      | Some user \<Rightarrow>
          let new_project = \<lparr>p_id = next_id (map p_id (projects d)), p_title = title,
                p_description = description, p_budget = budget, p_status = ''open'',
                p_created_at = now, p_client_id = u_id user, p_freelancer_id = None\<rparr>
          in (case insert_row Project_unique (projects d) new_project of
                Inl e \<Rightarrow> (Inl e, d)
              | Inr rows \<Rightarrow> (Inr new_project, d\<lparr>projects := rows\<rparr>))))))"

definition update_project ::
  "'f db \<Rightarrow> int \<Rightarrow> int \<Rightarrow> 'f project_data \<Rightarrow> (error + 'f project) \<times> 'f db" where
  "update_project d actor pid data =
     (case get_project d pid of
        None \<Rightarrow> (Inl not_found, d)
      | Some project \<Rightarrow>
     (case get_user d actor of
        None \<Rightarrow> (Inl (uncaught ''AttributeError''), d)
      | Some user \<Rightarrow>
          if p_client_id project \<noteq> u_id user then (Inl (HttpError 403 ''Not authorized''), d)
          else
            let title = (case pd_title data of None \<Rightarrow> p_title project | Some t \<Rightarrow> t);
                description =
                  (case pd_description data of None \<Rightarrow> p_description project | Some t \<Rightarrow> t);
                budget = (case pd_budget data of None \<Rightarrow> p_budget project | Some b \<Rightarrow> b);
                status = (case pd_status data of None \<Rightarrow> p_status project | Some s \<Rightarrow> s);
                upd = (\<lambda>p. p\<lparr>p_title := title, p_description := description,
                              p_budget := budget, p_status := status\<rparr>)
            in (Inr (upd project),
                d\<lparr>projects := map (\<lambda>p. if p_id p = p_id project then upd p else p)
                                     (projects d)\<rparr>)))"

definition accept_bid ::
  "'f db \<Rightarrow> int \<Rightarrow> int \<Rightarrow> accept_data \<Rightarrow> (error + 'f project) \<times> 'f db" where
  "accept_bid d actor pid data =
     (case get_project d pid of
        None \<Rightarrow> (Inl not_found, d)
      | Some project \<Rightarrow>
     (case get_user d actor of
        None \<Rightarrow> (Inl (uncaught ''AttributeError''), d)
      | Some user \<Rightarrow>
          if p_client_id project \<noteq> u_id user then (Inl (HttpError 403 ''Not authorized''), d)
          else if p_status project \<noteq> ''open'' then
            (Inl (HttpError 400 ''Project is not open for bidding''), d)
          else
            (case (case ad_bid_id data of None \<Rightarrow> None | Some bid_id \<Rightarrow> get_bid d bid_id) of
               None \<Rightarrow> (Inl not_found, d)
             | Some bid \<Rightarrow>
                 if b_project_id bid \<noteq> p_id project then
                   (Inl (HttpError 400 ''Bid does not belong to this project''), d)
                 else
                   let upd = (\<lambda>p. p\<lparr>p_freelancer_id := Some (b_freelancer_id bid),
                                     p_status := ''in_progress''\<rparr>)
                   in (Inr (upd project),
                       d\<lparr>projects := map (\<lambda>p. if p_id p = p_id project then upd p else p)
                                            (projects d)\<rparr>))))"

section \<open>Bid route (routes.py, place_bid)\<close>

text \<open>
  \<open>place_bid\<close> first reads (\<open>place_bid_check\<close>: the actor, the project and the three
  guards), then writes (\<open>place_bid_write\<close>: the new row, built from the body, is added
  and committed).
\<close>

definition place_bid_check :: "'f db \<Rightarrow> int \<Rightarrow> int \<Rightarrow> error + 'f user" where
  "place_bid_check d actor pid =
     (case get_project d pid of
        None \<Rightarrow> Inl not_found
      | Some project \<Rightarrow>
     (case get_user d actor of
        None \<Rightarrow> Inl (uncaught ''AttributeError'')
      | Some user \<Rightarrow>
          if \<not> u_is_freelancer user then Inl (HttpError 403 ''Only freelancers can bid'')
          else if p_status project \<noteq> ''open'' then
            Inl (HttpError 400 ''Project is not open for bidding'')
          else if existing_bid d pid (u_id user) \<noteq> None then
            Inl (HttpError 400 ''You have already placed a bid on this project'')
          else Inr user))"

definition place_bid_write ::
  "int \<Rightarrow> 'f db \<Rightarrow> 'f user \<Rightarrow> int \<Rightarrow> 'f bid_data \<Rightarrow> (error + 'f bid) \<times> 'f db" where
  "place_bid_write now d user pid data =
     (case bd_amount data of
        None \<Rightarrow> (Inl (uncaught ''KeyError''), d)
      | Some amount \<Rightarrow>
     (case bd_proposal data of
        None \<Rightarrow> (Inl (uncaught ''KeyError''), d)
      | Some proposal \<Rightarrow>
          let new_bid = \<lparr>b_id = next_id (map b_id (bids d)), b_amount = amount,
                b_proposal = proposal, b_created_at = now, b_project_id = pid,
                b_freelancer_id = u_id user\<rparr>
          in (case insert_row Bid_unique (bids d) new_bid of
                Inl e \<Rightarrow> (Inl e, d)
              | Inr rows \<Rightarrow> (Inr new_bid, d\<lparr>bids := rows\<rparr>))))"

definition place_bid ::
  "int \<Rightarrow> 'f db \<Rightarrow> int \<Rightarrow> int \<Rightarrow> 'f bid_data \<Rightarrow> (error + 'f bid) \<times> 'f db" where
  "place_bid now d actor pid data =
     (case place_bid_check d actor pid of
        Inl e \<Rightarrow> (Inl e, d)
      | Inr user \<Rightarrow> place_bid_write now d user pid data)"

section \<open>Review route (routes.py, post_review)\<close>

text \<open>
  The second half of \<open>post_review\<close>, from \<open>if not reviewee_id\<close> on, once the reviewee is
  chosen. \<open>not reviewee_id\<close> holds for \<open>None\<close> and for the integer 0.

  The storage engine is configured outside these sources. What it does with a value
  bound to an Integer column is passed in as \<open>integer_column\<close>: the exception the commit
  raises, or the value the column then holds, an integer or a text.

  The route commits the new row first. Then it calls \<open>update_user_ranking\<close>, which commits
  again, and last it dumps the new row. When the row holds a text, the first commit has
  stored it, and the request then fails: in \<open>update_user_ranking\<close> when the reviewee
  exists, and otherwise in the dump, where the Integer field of the schema raises
  \<open>ValueError\<close> on a text.
\<close>

definition post_review_for ::
  "(rating_value \<Rightarrow> error + rating_value) \<Rightarrow> 'f float_ops \<Rightarrow> int \<Rightarrow> 'f db \<Rightarrow> 'f user
     \<Rightarrow> int \<Rightarrow> review_data \<Rightarrow> int option \<Rightarrow> (error + review) \<times> 'f committed" where
  "post_review_for integer_column F now d user pid data reviewee_id =
     (case reviewee_id of
        None \<Rightarrow>
          (Inl (HttpError 400 ''Cannot review this project (no freelancer assigned)''),
           Clean d)
      | Some rid \<Rightarrow>
          if rid = 0 then
            (Inl (HttpError 400 ''Cannot review this project (no freelancer assigned)''),
             Clean d)
          else if existing_review d pid (u_id user) \<noteq> None then
            (Inl (HttpError 400 ''You have already reviewed this project''), Clean d)
          else
            (case rd_rating data of
               None \<Rightarrow> (Inl (uncaught ''KeyError''), Clean d)
             | Some rating \<Rightarrow>
                 (case integer_column rating of
                    Inl e \<Rightarrow> (Inl e, Clean d)
                  | Inr (RInt n) \<Rightarrow>
                      let new_review = \<lparr>r_id = next_id (map r_id (reviews d)), r_rating = n,
                            r_comment = rd_comment data, r_created_at = now,
                            r_project_id = pid, r_reviewer_id = u_id user,
                            r_reviewee_id = rid\<rparr>
                      in (case insert_row Review_unique (reviews d) new_review of
                            Inl e \<Rightarrow> (Inl e, Clean d)
                          | Inr rows \<Rightarrow>
                              let d1 = d\<lparr>reviews := rows\<rparr>;
                                  d2 = update_user_ranking F d1 rid
                              in (Inr new_review, Clean d2))
                  | Inr (RText s) \<Rightarrow>
                      let new_review = \<lparr>tr_id = next_id (map r_id (reviews d)),
                            tr_rating = s, tr_comment = rd_comment data,
                            tr_created_at = now, tr_project_id = pid,
                            tr_reviewer_id = u_id user, tr_reviewee_id = rid\<rparr>
                      in (case update_user_ranking_text F d new_review rid of
                            Inl e \<Rightarrow> (Inl e, TextRating d new_review)
                          | Inr d2 \<Rightarrow>
                              (Inl (uncaught ''ValueError''), TextRating d2 new_review)))))"

definition post_review ::
  "(rating_value \<Rightarrow> error + rating_value) \<Rightarrow> 'f float_ops \<Rightarrow> int \<Rightarrow> 'f db \<Rightarrow> int \<Rightarrow> int
     \<Rightarrow> review_data \<Rightarrow> (error + review) \<times> 'f committed" where
  "post_review integer_column F now d actor pid data =
     (case get_project d pid of
        None \<Rightarrow> (Inl not_found, Clean d)
      | Some project \<Rightarrow>
          if p_status project \<noteq> ''completed'' then
            (Inl (HttpError 400 ''Project must be completed to leave a review''), Clean d)
          else
            (case get_user d actor of
               None \<Rightarrow> (Inl (uncaught ''AttributeError''), Clean d)
             | Some user \<Rightarrow>
                 if u_id user = p_client_id project then
                   post_review_for integer_column F now d user pid data
                     (p_freelancer_id project)
                 else if Some (u_id user) = p_freelancer_id project then
                   post_review_for integer_column F now d user pid data
                     (Some (p_client_id project))
                 else (Inl (HttpError 403 ''You are not part of this project''), Clean d)))"

section \<open>Serialisation (backend/app/schemas.py)\<close>

text \<open>
  The value a schema dumps. An \<open>SQLAlchemyAutoSchema\<close> has one field per column of its
  model (and per foreign key with \<open>include_fk\<close>), restricted by \<open>Meta.fields\<close> or
  \<open>Meta.exclude\<close>, plus the fields the class declares; relationships are not included
  unless declared. A timestamp is dumped as the integer that stands for it.
\<close>

datatype 'f json = JNull | JBool bool | JInt int | JFloat 'f | JStr string
  | JList "'f json list" | JObj "(string \<times> 'f json) list"

text \<open>Every key that occurs in a dumped value, at any depth.\<close>

fun json_keys :: "'f json \<Rightarrow> string list" where
  "json_keys (JList xs) = concat (map json_keys xs)"
| "json_keys (JObj kvs) = concat (map (\<lambda>kv. fst kv # json_keys (snd kv)) kvs)"
| "json_keys _ = []"

definition opt_str :: "string option \<Rightarrow> 'f json" where
  "opt_str x = (case x of None \<Rightarrow> JNull | Some s \<Rightarrow> JStr s)"

definition opt_int :: "int option \<Rightarrow> 'f json" where
  "opt_int x = (case x of None \<Rightarrow> JNull | Some i \<Rightarrow> JInt i)"

definition User_columns :: "'f user \<Rightarrow> (string \<times> 'f json) list" where
  "User_columns u =
     [(''id'', JInt (u_id u)), (''username'', JStr (u_username u)),
      (''email'', JStr (u_email u)), (''password_hash'', JStr (u_password_hash u)),
      (''is_freelancer'', JBool (u_is_freelancer u)), (''bio'', opt_str (u_bio u)),
      (''skills'', opt_str (u_skills u)), (''ranking_score'', JFloat (u_ranking_score u))]"

definition Project_columns :: "'f project \<Rightarrow> (string \<times> 'f json) list" where
  "Project_columns p =
     [(''id'', JInt (p_id p)), (''title'', JStr (p_title p)),
      (''description'', JStr (p_description p)), (''budget'', JFloat (p_budget p)),
      (''status'', JStr (p_status p)), (''created_at'', JInt (p_created_at p)),
      (''client_id'', JInt (p_client_id p)), (''freelancer_id'', opt_int (p_freelancer_id p))]"

definition Bid_columns :: "'f bid \<Rightarrow> (string \<times> 'f json) list" where
  "Bid_columns b =
     [(''id'', JInt (b_id b)), (''amount'', JFloat (b_amount b)),
      (''proposal'', JStr (b_proposal b)), (''created_at'', JInt (b_created_at b)),
      (''project_id'', JInt (b_project_id b)), (''freelancer_id'', JInt (b_freelancer_id b))]"

definition Review_columns :: "review \<Rightarrow> (string \<times> 'f json) list" where
  "Review_columns r =
     [(''id'', JInt (r_id r)), (''rating'', JInt (r_rating r)),
      (''comment'', opt_str (r_comment r)), (''created_at'', JInt (r_created_at r)),
      (''project_id'', JInt (r_project_id r)), (''reviewer_id'', JInt (r_reviewer_id r)),
      (''reviewee_id'', JInt (r_reviewee_id r))]"

text \<open>\<open>UserPublicSchema\<close>: \<open>Meta.fields\<close> keeps four columns.\<close>

definition UserPublicSchema_fields :: "string list" where
  "UserPublicSchema_fields = [''id'', ''username'', ''is_freelancer'', ''ranking_score'']"

definition UserPublicSchema_dump :: "'f user \<Rightarrow> 'f json" where
  "UserPublicSchema_dump u =
     JObj (filter (\<lambda>kv. fst kv \<in> set UserPublicSchema_fields) (User_columns u))"

text \<open>
  \<open>fields.Nested(UserPublicSchema)\<close> on a relationship to User: the user the foreign key
  points to, or null.
\<close>

definition nested_user :: "'f db \<Rightarrow> int option \<Rightarrow> 'f json" where
  "nested_user d fk =
     (case fk of
        None \<Rightarrow> JNull
      | Some uid \<Rightarrow> (case get_user d uid of None \<Rightarrow> JNull | Some u \<Rightarrow> UserPublicSchema_dump u))"

definition ReviewSchema_dump :: "'f db \<Rightarrow> review \<Rightarrow> 'f json" where
  "ReviewSchema_dump d r =
     JObj (Review_columns r @
       [(''reviewer'', nested_user d (Some (r_reviewer_id r))),
        (''reviewee'', nested_user d (Some (r_reviewee_id r)))])"

definition BidSchema_dump :: "'f db \<Rightarrow> 'f bid \<Rightarrow> 'f json" where
  "BidSchema_dump d b =
     JObj (Bid_columns b @ [(''freelancer'', nested_user d (Some (b_freelancer_id b)))])"

definition ProjectSchema_dump :: "'f db \<Rightarrow> 'f project \<Rightarrow> 'f json" where
  "ProjectSchema_dump d p =
     JObj (Project_columns p @
       [(''client'', nested_user d (Some (p_client_id p))),
        (''freelancer'', nested_user d (p_freelancer_id p)),
        (''bids'', JList (map (BidSchema_dump d)
                      (filter (\<lambda>b. b_project_id b = p_id p) (bids d)))),
        (''reviews'', JList (map (ReviewSchema_dump d)
                      (filter (\<lambda>r. r_project_id r = p_id p) (reviews d))))])"

text \<open>
  \<open>UserSchema\<close>: \<open>Meta.exclude\<close> drops \<open>password_hash\<close>; the declared field \<open>password\<close> is
  \<open>load_only\<close> and is never dumped; \<open>reviews_received\<close> is declared as a nested list.
\<close>

definition UserSchema_exclude :: "string list" where
  "UserSchema_exclude = [''password_hash'']"

definition UserSchema_dump :: "'f db \<Rightarrow> 'f user \<Rightarrow> 'f json" where
  "UserSchema_dump d u =
     JObj (filter (\<lambda>kv. fst kv \<notin> set UserSchema_exclude) (User_columns u) @
       [(''reviews_received'',
         JList (map (ReviewSchema_dump d) (reviews_received d (u_id u))))])"

text \<open>The same database with every credential digest replaced, by \<open>g\<close> of the user.\<close>

definition with_password_hashes :: "('f user \<Rightarrow> string) \<Rightarrow> 'f db \<Rightarrow> 'f db" where
  "with_password_hashes g d = d\<lparr>users := map (\<lambda>u. u\<lparr>u_password_hash := g u\<rparr>) (users d)\<rparr>"

section \<open>The project invariant of the specification\<close>

text \<open>
  "\<open>freelancer\<close> is set if and only if status is \<open>in_progress\<close> or \<open>completed\<close>".
\<close>

definition freelancer_inv :: "'f project \<Rightarrow> bool" where
  "freelancer_inv p =
     ((p_freelancer_id p \<noteq> None) = (p_status p = ''in_progress'' \<or> p_status p = ''completed''))"

section \<open>Example data\<close>

text \<open>
  Floats in the examples are the expressions that produce them, so that an example runs
  the routes without deciding what a double holds: a literal with an integer value, a true
  division of two integers, and a rounding to two decimals.
\<close>

datatype sym_float = FloatLit int | TrueDiv int int | Round2 sym_float

definition sym_ops :: "sym_float float_ops" where
  "sym_ops = \<lparr>fl_zero = FloatLit 0, fl_truediv = TrueDiv, fl_round2 = Round2\<rparr>"

text \<open>
  An engine that does not type its columns, as SQLite: an integer that fits 64 bits is
  stored, a larger one makes the commit raise, a text that spells an integer of 64 bits is
  stored as that integer and a text that spells no number is stored as it is. (SQLite
  also converts a text that spells a number in another way, with blanks, a fraction, an
  exponent or beyond 64 bits; the examples use no such text.)
\<close>

definition int64 :: "int \<Rightarrow> bool" where
  "int64 n = (- (2 ^ 63) \<le> n \<and> n < 2 ^ 63)"

fun nat_literal :: "string \<Rightarrow> nat \<Rightarrow> nat option" where
  "nat_literal [] acc = Some acc"
| "nat_literal (c # cs) acc =
     (case map_of (zip ''0123456789'' [0, 1, 2, 3, 4, 5, 6, 7, 8, 9]) c of
        None \<Rightarrow> None
      | Some v \<Rightarrow> nat_literal cs (10 * acc + v))"

definition int_literal :: "string \<Rightarrow> int option" where
  "int_literal s =
     (case s of
        [] \<Rightarrow> None
      | c # cs \<Rightarrow>
          if c = CHR ''-'' then
            (if cs = [] then None else map_option (\<lambda>n. - int n) (nat_literal cs 0))
          else map_option int (nat_literal s 0))"

definition sqlite_integer :: "rating_value \<Rightarrow> error + rating_value" where
  "sqlite_integer v =
     (case v of
        RInt n \<Rightarrow> if int64 n then Inr (RInt n) else Inl (uncaught ''OverflowError'')
      | RText s \<Rightarrow>
          (case int_literal s of
             None \<Rightarrow> Inr (RText s)
           | Some n \<Rightarrow> if int64 n then Inr (RInt n) else Inr (RText s)))"

definition alice :: "sym_float user" where
  "alice = \<lparr>u_id = 1, u_username = ''alice'', u_email = ''alice@client.com'',
            u_password_hash = ''h1'', u_is_freelancer = False, u_bio = None,
            u_skills = None, u_ranking_score = FloatLit 0\<rparr>"

definition bob :: "sym_float user" where
  "bob = \<lparr>u_id = 2, u_username = ''bob'', u_email = ''bob@dev.com'',
          u_password_hash = ''h2'', u_is_freelancer = True, u_bio = None,
          u_skills = Some ''React'', u_ranking_score = FloatLit 0\<rparr>"

definition carol :: "sym_float user" where
  "carol = \<lparr>u_id = 3, u_username = ''carol'', u_email = ''carol@dev.com'',
            u_password_hash = ''h3'', u_is_freelancer = True, u_bio = None,
            u_skills = None, u_ranking_score = FloatLit 0\<rparr>"

definition demo_project ::
  "int \<Rightarrow> string \<Rightarrow> string \<Rightarrow> int \<Rightarrow> int \<Rightarrow> int option \<Rightarrow> sym_float project" where
  "demo_project i descr st t c f =
     \<lparr>p_id = i, p_title = ''Shop'', p_description = descr, p_budget = FloatLit 100,
      p_status = st, p_created_at = t, p_client_id = c, p_freelancer_id = f\<rparr>"

definition demo_bid :: "int \<Rightarrow> int \<Rightarrow> int \<Rightarrow> int \<Rightarrow> sym_float bid" where
  "demo_bid i t p f =
     \<lparr>b_id = i, b_amount = FloatLit 90, b_proposal = ''I can do it'', b_created_at = t,
      b_project_id = p, b_freelancer_id = f\<rparr>"

definition demo_review :: "int \<Rightarrow> int \<Rightarrow> int \<Rightarrow> int \<Rightarrow> int \<Rightarrow> int \<Rightarrow> review" where
  "demo_review i rating t p reviewer reviewee =
     \<lparr>r_id = i, r_rating = rating, r_comment = None, r_created_at = t, r_project_id = p,
      r_reviewer_id = reviewer, r_reviewee_id = reviewee\<rparr>"

text \<open>Request bodies.\<close>

definition project_body :: "string \<Rightarrow> sym_float project_data" where
  "project_body descr = \<lparr>pd_title = Some ''Shop'', pd_description = Some descr,
     pd_budget = Some (FloatLit 100), pd_status = None\<rparr>"

definition status_body :: "string \<Rightarrow> sym_float project_data" where
  "status_body st =
     \<lparr>pd_title = None, pd_description = None, pd_budget = None, pd_status = Some st\<rparr>"

definition title_body :: "sym_float project_data" where
  "title_body = \<lparr>pd_title = Some ''Web shop'', pd_description = None, pd_budget = None,
     pd_status = None\<rparr>"

definition bid_body :: "sym_float bid_data" where
  "bid_body = \<lparr>bd_amount = Some (FloatLit 90), bd_proposal = Some ''I can do it''\<rparr>"

definition review_body :: "rating_value \<Rightarrow> review_data" where
  "review_body v = \<lparr>rd_rating = Some v, rd_comment = None\<rparr>"

text \<open>A store with three users and nothing else.\<close>

definition db_users :: "sym_float db" where
  "db_users = \<lparr>users = [alice, bob, carol], projects = [], bids = [], reviews = []\<rparr>"

text \<open>Alice's project 1, open, with Bob's bid 1 on it.\<close>

definition db_open :: "sym_float db" where
  "db_open = \<lparr>users = [alice, bob, carol],
              projects = [demo_project 1 ''React shop'' ''open'' 10 1 None],
              bids = [demo_bid 1 5 1 2], reviews = []\<rparr>"

text \<open>The same project after Alice has accepted Bob's bid.\<close>

definition db_accepted :: "sym_float db" where
  "db_accepted = \<lparr>users = [alice, bob, carol],
              projects = [demo_project 1 ''React shop'' ''in_progress'' 10 1 (Some 2)],
              bids = [demo_bid 1 5 1 2], reviews = []\<rparr>"

text \<open>
  The same project completed by Bob, who already has a review with rating 4, by Carol for
  a project 9.
\<close>

definition db_completed :: "sym_float db" where
  "db_completed = \<lparr>users = [alice, bob, carol],
              projects = [demo_project 1 ''React shop'' ''completed'' 10 1 (Some 2)],
              bids = [demo_bid 1 5 1 2], reviews = [demo_review 1 4 7 9 3 2]\<rparr>"

text \<open>The store after Alice has reviewed Bob for project 1 with rating 5, at time 20.\<close>

definition db_reviewed :: "sym_float db" where
  "db_reviewed = \<lparr>users = [alice, bob\<lparr>u_ranking_score := Round2 (TrueDiv 9 2)\<rparr>, carol],
              projects = [demo_project 1 ''React shop'' ''completed'' 10 1 (Some 2)],
              bids = [demo_bid 1 5 1 2],
              reviews = [demo_review 1 4 7 9 3 2, demo_review 2 5 20 1 1 2]\<rparr>"

text \<open>Carol, a freelancer, is the client of the open project 1, without bids.\<close>

definition db_own :: "sym_float db" where
  "db_own = \<lparr>users = [alice, bob, carol],
              projects = [demo_project 1 ''Logo'' ''open'' 10 3 None],
              bids = [], reviews = []\<rparr>"

text \<open>Four projects of Alice: three open ones and a completed one.\<close>

definition db_listing :: "sym_float db" where
  "db_listing = \<lparr>users = [alice, bob, carol],
     projects = [demo_project 1 ''React shop'' ''open'' 10 1 None,
                 demo_project 2 ''Vue site'' ''open'' 20 1 None,
                 demo_project 3 ''Need REACT dev'' ''open'' 30 1 None,
                 demo_project 4 ''react app'' ''completed'' 40 1 (Some 2)],
     bids = [], reviews = []\<rparr>"

text \<open>
  A project that is reopened after a review. Carol creates project 1 (\<open>reopen1\<close>), Bob bids
  (\<open>reopen2\<close>), Carol accepts (\<open>reopen3\<close>), sets the status to completed (\<open>reopen4\<close>), reviews
  Bob (\<open>reopen5\<close>) and sets the status back to open (\<open>reopen6\<close>). Then Carol bids herself
  (\<open>reopen7\<close>), accepts her bid (\<open>reopen8\<close>) and sets the status to completed (\<open>reopen9\<close>).
\<close>

definition reopen_db ::
  "sym_float user list \<Rightarrow> string \<Rightarrow> int option \<Rightarrow> sym_float bid list \<Rightarrow> review list
     \<Rightarrow> sym_float db" where
  "reopen_db us st f bs rs =
     \<lparr>users = us, projects = [demo_project 1 ''Logo'' st 10 3 f], bids = bs, reviews = rs\<rparr>"

definition reopen1 :: "sym_float db" where
  "reopen1 = reopen_db [alice, bob, carol] ''open'' None [] []"

definition reopen2 :: "sym_float db" where
  "reopen2 = reopen_db [alice, bob, carol] ''open'' None [demo_bid 1 11 1 2] []"

definition reopen3 :: "sym_float db" where
  "reopen3 = reopen_db [alice, bob, carol] ''in_progress'' (Some 2) [demo_bid 1 11 1 2] []"

definition reopen4 :: "sym_float db" where
  "reopen4 = reopen_db [alice, bob, carol] ''completed'' (Some 2) [demo_bid 1 11 1 2] []"

definition reopen5 :: "sym_float db" where
  "reopen5 = reopen_db [alice, bob\<lparr>u_ranking_score := Round2 (TrueDiv 5 1)\<rparr>, carol]
     ''completed'' (Some 2) [demo_bid 1 11 1 2] [demo_review 1 5 12 1 3 2]"

definition reopen6 :: "sym_float db" where
  "reopen6 = reopen_db [alice, bob\<lparr>u_ranking_score := Round2 (TrueDiv 5 1)\<rparr>, carol]
     ''open'' (Some 2) [demo_bid 1 11 1 2] [demo_review 1 5 12 1 3 2]"

definition reopen7 :: "sym_float db" where
  "reopen7 = reopen_db [alice, bob\<lparr>u_ranking_score := Round2 (TrueDiv 5 1)\<rparr>, carol]
     ''open'' (Some 2) [demo_bid 1 11 1 2, demo_bid 2 13 1 3] [demo_review 1 5 12 1 3 2]"

definition reopen8 :: "sym_float db" where
  "reopen8 = reopen_db [alice, bob\<lparr>u_ranking_score := Round2 (TrueDiv 5 1)\<rparr>, carol]
     ''in_progress'' (Some 3) [demo_bid 1 11 1 2, demo_bid 2 13 1 3]
     [demo_review 1 5 12 1 3 2]"

definition reopen9 :: "sym_float db" where
  "reopen9 = reopen_db [alice, bob\<lparr>u_ranking_score := Round2 (TrueDiv 5 1)\<rparr>, carol]
     ''completed'' (Some 3) [demo_bid 1 11 1 2, demo_bid 2 13 1 3]
     [demo_review 1 5 12 1 3 2]"

section \<open>Basic facts\<close>

lemma find_key_eq: "find (\<lambda>x. f x = k) xs = Some y \<Longrightarrow> f y = k"
  by (auto simp: find_Some_iff)

lemma find_in_set: "find P xs = Some y \<Longrightarrow> y \<in> set xs"
  by (auto simp: find_Some_iff)

lemma next_id_fresh: "i \<in> set ids \<Longrightarrow> i < next_id ids"
proof -
  assume i: "i \<in> set ids"
  then have "ids \<noteq> []" by auto
  moreover from i have "i \<le> Max (set ids)" by simp
  ultimately show ?thesis by (simp add: next_id_def)
qed

lemma next_id_new: "next_id (map key xs) \<notin> key ` set xs"
  using next_id_fresh [of "next_id (map key xs)" "map key xs"] by auto


text \<open>A table whose only constraint is its key accepts exactly the rows with a new key.\<close>

lemma insert_row_key:
  "insert_row [\<lambda>a b. key a = key b] rows new =
     (if key new \<in> key ` set rows then Inl (uncaught ''IntegrityError'')
      else Inr (rows @ [new]))"
proof -
  have "list_ex (\<lambda>r. key r = key new) rows \<longleftrightarrow> key new \<in> key ` set rows"
    unfolding list_ex_iff image_iff by metis
  then show ?thesis by (simp add: insert_row_def violates_def)
qed

lemma insert_row_next_id:
  assumes "key new = next_id (map key rows)"
  shows "insert_row [\<lambda>a b. key a = key b] rows new = Inr (rows @ [new])"
  using next_id_new [of key rows] by (simp add: insert_row_key assms)

lemma insert_row_cases:
  "insert_row cs rows new = Inl (uncaught ''IntegrityError'')
   \<or> insert_row cs rows new = Inr (rows @ [new])"
  by (simp add: insert_row_def)

lemma get_user_id: "get_user d uid = Some u \<Longrightarrow> u_id u = uid"
  unfolding get_user_def by (rule find_key_eq)

lemma get_project_id: "get_project d pid = Some p \<Longrightarrow> p_id p = pid"
  unfolding get_project_def by (rule find_key_eq)

lemma get_bid_id: "get_bid d i = Some b \<Longrightarrow> b_id b = i"
  unfolding get_bid_def by (rule find_key_eq)

section \<open>Ranking\<close>

lemma update_user_ranking_reviews [simp]: "reviews (update_user_ranking F d uid) = reviews d"
  by (simp add: update_user_ranking_def Let_def split: option.splits)

lemma update_user_ranking_projects [simp]: "projects (update_user_ranking F d uid) = projects d"
  by (simp add: update_user_ranking_def Let_def split: option.splits)

lemma update_user_ranking_bids [simp]: "bids (update_user_ranking F d uid) = bids d"
  by (simp add: update_user_ranking_def Let_def split: option.splits)

lemma update_user_ranking_users:
  assumes "get_user d uid = Some user"
  shows "users (update_user_ranking F d uid) =
      map (\<lambda>v. if u_id v = uid then v\<lparr>u_ranking_score := spec_ranking_score F d uid\<rparr> else v)
        (users d)"
proof -
  from assms have id: "u_id user = uid" by (rule get_user_id)
  show ?thesis
    unfolding update_user_ranking_def spec_ranking_score_def reviews_received_def Let_def
    by (simp add: assms id)
qed

lemma update_user_ranking_score:
  assumes "u \<in> set (users (update_user_ranking F d uid))" "u_id u = uid"
  shows "u_ranking_score u = spec_ranking_score F d uid"
proof (cases "get_user d uid")
  case None
  then have "\<forall>v \<in> set (users d). u_id v \<noteq> uid"
    by (simp add: get_user_def find_None_iff)
  moreover from None have "update_user_ranking F d uid = d"
    by (simp add: update_user_ranking_def)
  ultimately show ?thesis using assms by simp
next
  case (Some user)
  from assms(1) obtain v where v: "v \<in> set (users d)"
    and u: "u = (if u_id v = uid then v\<lparr>u_ranking_score := spec_ranking_score F d uid\<rparr> else v)"
    unfolding update_user_ranking_users [OF Some] set_map by blast
  show ?thesis
  proof (cases "u_id v = uid")
    case True
    with u show ?thesis by simp
  next
    case False
    with u assms(2) show ?thesis by simp
  qed
qed

section \<open>Reviews\<close>

text \<open>What a successful \<open>post_review_for\<close> did.\<close>

lemma post_review_for_Inr:
  assumes "post_review_for ic F now d user pid data rv = (Inr r, s)"
  shows "\<exists>rid v. rv = Some rid \<and> rid \<noteq> 0 \<and> existing_review d pid (u_id user) = None
     \<and> rd_rating data = Some v \<and> ic v = Inr (RInt (r_rating r))
     \<and> r = \<lparr>r_id = next_id (map r_id (reviews d)), r_rating = r_rating r,
             r_comment = rd_comment data, r_created_at = now, r_project_id = pid,
             r_reviewer_id = u_id user, r_reviewee_id = rid\<rparr>
     \<and> s = Clean (update_user_ranking F (d\<lparr>reviews := reviews d @ [r]\<rparr>) rid)"
proof (cases rv)
  case None
  with assms show ?thesis by (simp add: post_review_for_def)
next
  case (Some rid)
  note rv = this
  show ?thesis
  proof (cases "rid = 0 \<or> existing_review d pid (u_id user) \<noteq> None")
    case True
    with assms rv show ?thesis by (auto simp: post_review_for_def split: if_splits)
  next
    case False
    note ok = this
    show ?thesis
    proof (cases "rd_rating data")
      case None
      with assms rv ok show ?thesis by (simp add: post_review_for_def)
    next
      case (Some v)
      note v = this
      show ?thesis
      proof (cases "ic v")
        case (Inl e)
        with assms rv ok v show ?thesis by (simp add: post_review_for_def)
      next
        case (Inr cell)
        note cell = this
        show ?thesis
        proof (cases cell)
          case (RText t)
          with assms rv ok v cell show ?thesis
            by (simp add: post_review_for_def Let_def split: sum.splits)
        next
          case (RInt n)
          define new where "new = \<lparr>r_id = next_id (map r_id (reviews d)), r_rating = n,
             r_comment = rd_comment data, r_created_at = now, r_project_id = pid,
             r_reviewer_id = u_id user, r_reviewee_id = rid\<rparr>"
          have ins: "insert_row Review_unique (reviews d) new = Inr (reviews d @ [new])"
            unfolding Review_unique_def by (rule insert_row_next_id) (simp add: new_def)
          from rv ok v cell RInt ins
          have "post_review_for ic F now d user pid data rv =
              (Inr new, Clean (update_user_ranking F (d\<lparr>reviews := reviews d @ [new]\<rparr>) rid))"
            by (simp add: post_review_for_def Let_def new_def [symmetric])
          with assms have "(Inr r :: error + review, s) =
              (Inr new, Clean (update_user_ranking F (d\<lparr>reviews := reviews d @ [new]\<rparr>) rid))"
            by metis
          then have r: "r = new"
            and s: "s = Clean (update_user_ranking F (d\<lparr>reviews := reviews d @ [r]\<rparr>) rid)"
            by auto
          from r have "r_rating r = n" by (simp add: new_def)
          with r s rv ok v cell RInt show ?thesis by (simp add: new_def)
        qed
      qed
    qed
  qed
qed

lemma post_review_Inr:
  assumes "post_review ic F now d actor pid data = (Inr r, s)"
  shows "\<exists>project user. get_project d pid = Some project \<and> p_status project = ''completed''
     \<and> get_user d actor = Some user
     \<and> (u_id user = p_client_id project \<or> Some (u_id user) = p_freelancer_id project)
     \<and> post_review_for ic F now d user pid data
          (if u_id user = p_client_id project then p_freelancer_id project
           else Some (p_client_id project)) = (Inr r, s)"
proof (cases "get_project d pid")
  case None
  with assms show ?thesis by (simp add: post_review_def)
next
  case (Some project)
  note p = this
  show ?thesis
  proof (cases "p_status project = ''completed''")
    case False
    with assms p show ?thesis by (simp add: post_review_def)
  next
    case True
    note st = this
    show ?thesis
    proof (cases "get_user d actor")
      case None
      with assms p st show ?thesis by (simp add: post_review_def)
    next
      case (Some user)
      with assms p st show ?thesis
        by (simp add: post_review_def split: if_splits)
    qed
  qed
qed

text \<open>
  C1. A successful post-review leaves a database in which every user who is the reviewee
  of the new review has as ranking score the mean of the ratings of all reviews whose
  reviewee they are, rounded to two decimals (0.0 if there are none), computed on the
  store the request leaves.
\<close>

theorem post_review_ranking:
  assumes "post_review ic F now d actor pid data = (Inr r, s)"
  shows "\<exists>d'. s = Clean d'
     \<and> (\<forall>u \<in> set (users d'). u_id u = r_reviewee_id r \<longrightarrow>
          u_ranking_score u = spec_ranking_score F d' (u_id u))"
proof -
  from post_review_Inr [OF assms] obtain user rv
    where pr: "post_review_for ic F now d user pid data rv = (Inr r, s)"
    by blast
  from post_review_for_Inr [OF pr] obtain rid where
    rid: "r_reviewee_id r = rid"
    and s: "s = Clean (update_user_ranking F (d\<lparr>reviews := reviews d @ [r]\<rparr>) rid)"
    by (metis review.select_convs(7))
  let ?d1 = "d\<lparr>reviews := reviews d @ [r]\<rparr>"
  let ?d' = "update_user_ranking F ?d1 rid"
  have "u_ranking_score u = spec_ranking_score F ?d' (u_id u)"
    if u: "u \<in> set (users ?d')" and id: "u_id u = r_reviewee_id r" for u
  proof -
    have "u_ranking_score u = spec_ranking_score F ?d1 rid"
      using u id rid by (intro update_user_ranking_score) simp_all
    also have "\<dots> = spec_ranking_score F ?d' rid"
      by (simp add: spec_ranking_score_def)
    finally show ?thesis using id rid by simp
  qed
  with s show ?thesis by blast
qed

lemmas demo_defs = db_listing_def db_open_def db_accepted_def db_completed_def
  db_reviewed_def db_own_def db_users_def reopen_db_def reopen1_def reopen2_def
  reopen3_def reopen4_def reopen5_def reopen6_def reopen7_def reopen8_def reopen9_def
  project_body_def alice_def bob_def carol_def demo_project_def demo_bid_def
  demo_review_def bid_body_def review_body_def status_body_def title_body_def
  sym_ops_def sqlite_integer_def int_literal_def int64_def

lemmas route_defs = post_review_def post_review_for_def update_user_ranking_def
  update_user_ranking_text_def get_user_def get_project_def get_bid_def
  existing_review_def existing_bid_def reviews_received_def next_id_def insert_row_def
  violates_def Review_unique_def Bid_unique_def Project_unique_def User_unique_def
  spec_ranking_score_def

lemma alice_reviews_bob:
  "post_review sqlite_integer sym_ops 20 db_completed 1 1 (review_body (RInt 5)) =
     (Inr (demo_review 2 5 20 1 1 2), Clean db_reviewed)"
  by (simp add: demo_defs route_defs Let_def)

theorem post_review_ranking_witness:
  "post_review sqlite_integer sym_ops 20 db_completed 1 1 (review_body (RInt 5)) =
     (Inr (demo_review 2 5 20 1 1 2), Clean db_reviewed)
   \<and> bob\<lparr>u_ranking_score := Round2 (TrueDiv 9 2)\<rparr> \<in> set (users db_reviewed)
   \<and> u_ranking_score (bob\<lparr>u_ranking_score := Round2 (TrueDiv 9 2)\<rparr>) =
       spec_ranking_score sym_ops db_reviewed 2"
proof -
  from post_review_ranking [OF alice_reviews_bob]
  have "\<forall>u \<in> set (users db_reviewed). u_id u = 2 \<longrightarrow>
      u_ranking_score u = spec_ranking_score sym_ops db_reviewed (u_id u)"
    by (simp add: demo_review_def)
  moreover have "bob\<lparr>u_ranking_score := Round2 (TrueDiv 9 2)\<rparr> \<in> set (users db_reviewed)"
    by (simp add: db_reviewed_def)
  ultimately show ?thesis using alice_reviews_bob by (auto simp: bob_def)
qed

section \<open>Row updates\<close>

lemma find_map_update:
  assumes "\<And>x. key (upd x) = key x"
  shows "find (\<lambda>x. key x = k) (map (\<lambda>x. if key x = k' then upd x else x) xs) =
         map_option (\<lambda>x. if key x = k' then upd x else x) (find (\<lambda>x. key x = k) xs)"
  by (induction xs) (auto simp: assms)

lemma find_append_new:
  "find P (xs @ [x]) = (case find P xs of Some y \<Rightarrow> Some y | None \<Rightarrow> if P x then Some x else None)"
  by (induction xs) auto

section \<open>Accepting a bid\<close>

lemma accept_bid_unfold:
  assumes "get_project d pid = Some project" and "get_user d actor = Some user"
  shows "accept_bid d actor pid data =
     (if p_client_id project \<noteq> u_id user then (Inl (HttpError 403 ''Not authorized''), d)
      else if p_status project \<noteq> ''open'' then
        (Inl (HttpError 400 ''Project is not open for bidding''), d)
      else
        (case (case ad_bid_id data of None \<Rightarrow> None | Some bid_id \<Rightarrow> get_bid d bid_id) of
           None \<Rightarrow> (Inl not_found, d)
         | Some bid \<Rightarrow>
             if b_project_id bid \<noteq> pid then
               (Inl (HttpError 400 ''Bid does not belong to this project''), d)
             else
               (Inr (project\<lparr>p_freelancer_id := Some (b_freelancer_id bid),
                              p_status := ''in_progress''\<rparr>),
                d\<lparr>projects := map (\<lambda>p. if p_id p = pid
                     then p\<lparr>p_freelancer_id := Some (b_freelancer_id bid),
                            p_status := ''in_progress''\<rparr> else p) (projects d)\<rparr>)))"
  using get_project_id [OF assms(1)]
  by (simp add: accept_bid_def assms Let_def split: option.splits)

lemma get_project_updated:
  assumes "get_project d pid = Some project" and "\<And>p. p_id (upd p) = p_id p"
  shows "get_project (d\<lparr>projects := map (\<lambda>p. if p_id p = pid then upd p else p) (projects d)\<rparr>) pid
         = Some (upd project)"
  using assms(1) get_project_id [OF assms(1)]
  by (simp add: get_project_def find_map_update [where key = p_id and upd = upd, OF assms(2)])

text \<open>
  C4. For an existing project and actor, accept-bid succeeds exactly when the actor is the
  project's client, the project is open and the referenced bid exists and belongs to the
  project; it then stores the bid's freelancer and the status \<open>in_progress\<close> on the
  project. The guards are checked in this order: a non-client gets 403 "Not authorized",
  the client of a project that is not open gets 400 "Project is not open for bidding", and
  a bid of another project gets 400 "Bid does not belong to this project".
\<close>

theorem accept_bid_spec:
  assumes "get_project d pid = Some project" and "get_user d actor = Some user"
  shows
    "((\<exists>pr d'. accept_bid d actor pid data = (Inr pr, d')) \<longleftrightarrow>
        (u_id user = p_client_id project \<and> p_status project = ''open'' \<and>
         (\<exists>i bid. ad_bid_id data = Some i \<and> get_bid d i = Some bid \<and> b_project_id bid = pid)))
     \<and> (\<forall>pr d'. accept_bid d actor pid data = (Inr pr, d') \<longrightarrow>
          (\<exists>i bid. ad_bid_id data = Some i \<and> get_bid d i = Some bid
             \<and> pr = project\<lparr>p_freelancer_id := Some (b_freelancer_id bid),
                             p_status := ''in_progress''\<rparr>
             \<and> get_project d' pid = Some pr))
     \<and> (u_id user \<noteq> p_client_id project \<longrightarrow>
          accept_bid d actor pid data = (Inl (HttpError 403 ''Not authorized''), d))
     \<and> (u_id user = p_client_id project \<and> p_status project \<noteq> ''open'' \<longrightarrow>
          accept_bid d actor pid data = (Inl (HttpError 400 ''Project is not open for bidding''), d))
     \<and> (\<forall>i bid. u_id user = p_client_id project \<and> p_status project = ''open''
            \<and> ad_bid_id data = Some i \<and> get_bid d i = Some bid \<and> b_project_id bid \<noteq> pid \<longrightarrow>
          accept_bid d actor pid data =
            (Inl (HttpError 400 ''Bid does not belong to this project''), d))"
proof -
  note unf = accept_bid_unfold [OF assms, of data]
  have iff: "(\<exists>pr d'. accept_bid d actor pid data = (Inr pr, d')) \<longleftrightarrow>
        (u_id user = p_client_id project \<and> p_status project = ''open'' \<and>
         (\<exists>i bid. ad_bid_id data = Some i \<and> get_bid d i = Some bid \<and> b_project_id bid = pid))"
    unfolding unf by (auto split: option.splits)
  have eff: "\<exists>i bid. ad_bid_id data = Some i \<and> get_bid d i = Some bid
             \<and> pr = project\<lparr>p_freelancer_id := Some (b_freelancer_id bid),
                             p_status := ''in_progress''\<rparr>
             \<and> get_project d' pid = Some pr"
    if ok: "accept_bid d actor pid data = (Inr pr, d')" for pr d'
  proof -
    from ok obtain i bid where i: "ad_bid_id data = Some i" and b: "get_bid d i = Some bid"
      and pr: "pr = project\<lparr>p_freelancer_id := Some (b_freelancer_id bid),
                             p_status := ''in_progress''\<rparr>"
      and d': "d' = d\<lparr>projects := map (\<lambda>p. if p_id p = pid
                     then p\<lparr>p_freelancer_id := Some (b_freelancer_id bid),
                            p_status := ''in_progress''\<rparr> else p) (projects d)\<rparr>"
      unfolding unf by (auto split: option.splits if_splits)
    have "get_project d' pid = Some pr"
      unfolding d' pr
      by (rule get_project_updated [OF assms(1)]) simp
    with i b pr show ?thesis by blast
  qed
  have e1: "u_id user \<noteq> p_client_id project \<longrightarrow>
          accept_bid d actor pid data = (Inl (HttpError 403 ''Not authorized''), d)"
    unfolding unf by auto
  have e2: "u_id user = p_client_id project \<and> p_status project \<noteq> ''open'' \<longrightarrow>
          accept_bid d actor pid data = (Inl (HttpError 400 ''Project is not open for bidding''), d)"
    unfolding unf by auto
  have e3: "\<forall>i bid. u_id user = p_client_id project \<and> p_status project = ''open''
            \<and> ad_bid_id data = Some i \<and> get_bid d i = Some bid \<and> b_project_id bid \<noteq> pid \<longrightarrow>
          accept_bid d actor pid data =
            (Inl (HttpError 400 ''Bid does not belong to this project''), d)"
    unfolding unf by auto
  from iff eff e1 e2 e3 show ?thesis by blast
qed

theorem accept_bid_spec_witness:
  "get_project db_open 1 = Some (demo_project 1 ''React shop'' ''open'' 10 1 None)
   \<and> get_user db_open 1 = Some alice
   \<and> (\<exists>pr d'. accept_bid db_open 1 1 \<lparr>ad_bid_id = Some 1\<rparr> = (Inr pr, d'))
   \<and> accept_bid db_open 2 1 \<lparr>ad_bid_id = Some 1\<rparr> = (Inl (HttpError 403 ''Not authorized''), db_open)"
proof -
  have p: "get_project db_open 1 = Some (demo_project 1 ''React shop'' ''open'' 10 1 None)"
    by (simp add: get_project_def db_open_def demo_project_def)
  have u: "get_user db_open 1 = Some alice"
    by (simp add: get_user_def db_open_def alice_def)
  have u2: "get_user db_open 2 = Some bob"
    by (simp add: get_user_def db_open_def alice_def bob_def)
  have b: "get_bid db_open 1 = Some (demo_bid 1 5 1 2)"
    by (simp add: get_bid_def db_open_def demo_bid_def)
  from accept_bid_spec [OF p u, of "\<lparr>ad_bid_id = Some 1\<rparr>"] b
  have "\<exists>pr d'. accept_bid db_open 1 1 \<lparr>ad_bid_id = Some 1\<rparr> = (Inr pr, d')"
    by (simp add: alice_def demo_project_def demo_bid_def)
  moreover from accept_bid_spec [OF p u2, of "\<lparr>ad_bid_id = Some 1\<rparr>"]
  have "accept_bid db_open 2 1 \<lparr>ad_bid_id = Some 1\<rparr> = (Inl (HttpError 403 ''Not authorized''), db_open)"
    by (simp add: bob_def demo_project_def)
  ultimately show ?thesis using p u by simp
qed

section \<open>Failed requests\<close>




lemma update_project_fail:
  "isl (fst (update_project d actor pid data)) \<Longrightarrow> snd (update_project d actor pid data) = d"
  by (auto simp: update_project_def Let_def split: option.splits if_splits)

lemma accept_bid_fail:
  "isl (fst (accept_bid d actor pid data)) \<Longrightarrow> snd (accept_bid d actor pid data) = d"
  by (auto simp: accept_bid_def Let_def split: option.splits if_splits)












section \<open>Posting a review\<close>

lemma post_review_unfold:
  assumes "get_project d pid = Some project"
  shows "post_review ic F now d actor pid data =
     (if p_status project \<noteq> ''completed'' then
        (Inl (HttpError 400 ''Project must be completed to leave a review''), Clean d)
      else
        (case get_user d actor of
           None \<Rightarrow> (Inl (uncaught ''AttributeError''), Clean d)
         | Some user \<Rightarrow>
             if u_id user = p_client_id project then
               post_review_for ic F now d user pid data (p_freelancer_id project)
             else if Some (u_id user) = p_freelancer_id project then
               post_review_for ic F now d user pid data (Some (p_client_id project))
             else (Inl (HttpError 403 ''You are not part of this project''), Clean d)))"
  by (simp add: post_review_def assms)

text \<open>
  C7. For an existing project: a successful post-review means that the project is
  completed, the actor is its client or its freelancer, the reviewee is the other party,
  the actor had no review of this project, the store kept the rating of the body as the
  integer the review carries, and the store is the old one with the new review appended
  and the reviewee's ranking recomputed. The guards are checked in this order: a project
  that is not completed gives 400, an actor who is neither party gives 403, no freelancer
  assigned gives 400, an earlier review by the actor gives 400; each leaves the store as
  it was.
\<close>

theorem post_review_spec:
  assumes "get_project d pid = Some project"
  shows
    "(\<forall>r s. post_review ic F now d actor pid data = (Inr r, s) \<longrightarrow>
        p_status project = ''completed''
        \<and> (\<exists>user. get_user d actor = Some user
              \<and> (u_id user = p_client_id project \<or> Some (u_id user) = p_freelancer_id project)
              \<and> r_reviewer_id r = u_id user
              \<and> Some (r_reviewee_id r) =
                  (if u_id user = p_client_id project then p_freelancer_id project
                   else Some (p_client_id project))
              \<and> existing_review d pid (u_id user) = None)
        \<and> r_project_id r = pid
        \<and> (\<exists>v. rd_rating data = Some v \<and> ic v = Inr (RInt (r_rating r)))
        \<and> (\<exists>d'. s = Clean d' \<and> reviews d' = reviews d @ [r]
              \<and> d' = update_user_ranking F (d\<lparr>reviews := reviews d @ [r]\<rparr>)
                       (r_reviewee_id r)))
     \<and> (p_status project \<noteq> ''completed'' \<longrightarrow>
          post_review ic F now d actor pid data =
            (Inl (HttpError 400 ''Project must be completed to leave a review''), Clean d))
     \<and> (\<forall>user. p_status project = ''completed'' \<and> get_user d actor = Some user
            \<and> u_id user \<noteq> p_client_id project \<and> Some (u_id user) \<noteq> p_freelancer_id project \<longrightarrow>
          post_review ic F now d actor pid data =
            (Inl (HttpError 403 ''You are not part of this project''), Clean d))
     \<and> (\<forall>user. p_status project = ''completed'' \<and> get_user d actor = Some user
            \<and> u_id user = p_client_id project \<and> p_freelancer_id project = None \<longrightarrow>
          post_review ic F now d actor pid data =
            (Inl (HttpError 400 ''Cannot review this project (no freelancer assigned)''),
             Clean d))
     \<and> (\<forall>user rid. p_status project = ''completed'' \<and> get_user d actor = Some user
            \<and> (u_id user = p_client_id project \<or> Some (u_id user) = p_freelancer_id project)
            \<and> (if u_id user = p_client_id project then p_freelancer_id project
                else Some (p_client_id project)) = Some rid
            \<and> rid \<noteq> 0 \<and> existing_review d pid (u_id user) \<noteq> None \<longrightarrow>
          post_review ic F now d actor pid data =
            (Inl (HttpError 400 ''You have already reviewed this project''), Clean d))"
proof -
  note unf = post_review_unfold [OF assms, of ic F now actor data]
  have ok: "p_status project = ''completed''
        \<and> (\<exists>user. get_user d actor = Some user
              \<and> (u_id user = p_client_id project \<or> Some (u_id user) = p_freelancer_id project)
              \<and> r_reviewer_id r = u_id user
              \<and> Some (r_reviewee_id r) =
                  (if u_id user = p_client_id project then p_freelancer_id project
                   else Some (p_client_id project))
              \<and> existing_review d pid (u_id user) = None)
        \<and> r_project_id r = pid
        \<and> (\<exists>v. rd_rating data = Some v \<and> ic v = Inr (RInt (r_rating r)))
        \<and> (\<exists>d'. s = Clean d' \<and> reviews d' = reviews d @ [r]
              \<and> d' = update_user_ranking F (d\<lparr>reviews := reviews d @ [r]\<rparr>)
                       (r_reviewee_id r))"
    if run: "post_review ic F now d actor pid data = (Inr r, s)" for r s
  proof -
    from post_review_Inr [OF run] assms obtain user where
      st: "p_status project = ''completed''" and u: "get_user d actor = Some user"
      and party: "u_id user = p_client_id project \<or> Some (u_id user) = p_freelancer_id project"
      and pf: "post_review_for ic F now d user pid data
          (if u_id user = p_client_id project then p_freelancer_id project
           else Some (p_client_id project)) = (Inr r, s)"
      by auto
    from post_review_for_Inr [OF pf] obtain rid v where
      rv: "(if u_id user = p_client_id project then p_freelancer_id project
           else Some (p_client_id project)) = Some rid"
      and ex: "existing_review d pid (u_id user) = None"
      and rating: "rd_rating data = Some v" "ic v = Inr (RInt (r_rating r))"
      and r: "r = \<lparr>r_id = next_id (map r_id (reviews d)), r_rating = r_rating r,
             r_comment = rd_comment data, r_created_at = now, r_project_id = pid,
             r_reviewer_id = u_id user, r_reviewee_id = rid\<rparr>"
      and s: "s = Clean (update_user_ranking F (d\<lparr>reviews := reviews d @ [r]\<rparr>) rid)"
      by blast
    have fields: "r_reviewer_id r = u_id user" "r_reviewee_id r = rid" "r_project_id r = pid"
      by (subst r, simp)+
    let ?d' = "update_user_ranking F (d\<lparr>reviews := reviews d @ [r]\<rparr>) (r_reviewee_id r)"
    have "s = Clean ?d'" "reviews ?d' = reviews d @ [r]"
      using s fields by simp_all
    then have store: "\<exists>d'. s = Clean d' \<and> reviews d' = reviews d @ [r]
              \<and> d' = update_user_ranking F (d\<lparr>reviews := reviews d @ [r]\<rparr>)
                       (r_reviewee_id r)"
      by blast
    from rating have rated: "\<exists>v. rd_rating data = Some v \<and> ic v = Inr (RInt (r_rating r))"
      by blast
    from u party fields rv ex
    have who: "\<exists>user. get_user d actor = Some user
              \<and> (u_id user = p_client_id project \<or> Some (u_id user) = p_freelancer_id project)
              \<and> r_reviewer_id r = u_id user
              \<and> Some (r_reviewee_id r) =
                  (if u_id user = p_client_id project then p_freelancer_id project
                   else Some (p_client_id project))
              \<and> existing_review d pid (u_id user) = None"
      by auto
    from st who fields(3) rated store show ?thesis by blast
  qed
  have e1: "p_status project \<noteq> ''completed'' \<longrightarrow>
          post_review ic F now d actor pid data =
            (Inl (HttpError 400 ''Project must be completed to leave a review''), Clean d)"
    unfolding unf by simp
  have e2: "\<forall>user. p_status project = ''completed'' \<and> get_user d actor = Some user
            \<and> u_id user \<noteq> p_client_id project \<and> Some (u_id user) \<noteq> p_freelancer_id project \<longrightarrow>
          post_review ic F now d actor pid data =
            (Inl (HttpError 403 ''You are not part of this project''), Clean d)"
    unfolding unf by simp
  have e3: "\<forall>user. p_status project = ''completed'' \<and> get_user d actor = Some user
            \<and> u_id user = p_client_id project \<and> p_freelancer_id project = None \<longrightarrow>
          post_review ic F now d actor pid data =
            (Inl (HttpError 400 ''Cannot review this project (no freelancer assigned)''),
             Clean d)"
    unfolding unf by (simp add: post_review_for_def)
  have e4: "\<forall>user rid. p_status project = ''completed'' \<and> get_user d actor = Some user
            \<and> (u_id user = p_client_id project \<or> Some (u_id user) = p_freelancer_id project)
            \<and> (if u_id user = p_client_id project then p_freelancer_id project
                else Some (p_client_id project)) = Some rid
            \<and> rid \<noteq> 0 \<and> existing_review d pid (u_id user) \<noteq> None \<longrightarrow>
          post_review ic F now d actor pid data =
            (Inl (HttpError 400 ''You have already reviewed this project''), Clean d)"
    unfolding unf by (auto simp: post_review_for_def)
  from ok e1 e2 e3 e4 show ?thesis by blast
qed

theorem post_review_spec_witness:
  "get_project db_completed 1 = Some (demo_project 1 ''React shop'' ''completed'' 10 1 (Some 2))
   \<and> post_review sqlite_integer sym_ops 20 db_completed 1 1 (review_body (RInt 5)) =
       (Inr (demo_review 2 5 20 1 1 2), Clean db_reviewed)
   \<and> db_reviewed =
       update_user_ranking sym_ops
         (db_completed\<lparr>reviews := reviews db_completed @ [demo_review 2 5 20 1 1 2]\<rparr>) 2
   \<and> post_review sqlite_integer sym_ops 20 db_completed 3 1 (review_body (RInt 5)) =
       (Inl (HttpError 403 ''You are not part of this project''), Clean db_completed)"
proof -
  have p: "get_project db_completed 1 =
      Some (demo_project 1 ''React shop'' ''completed'' 10 1 (Some 2))"
    by (simp add: get_project_def db_completed_def demo_project_def)
  have u: "get_user db_completed 3 = Some carol"
    by (simp add: get_user_def db_completed_def alice_def bob_def carol_def)
  have run: "post_review sqlite_integer sym_ops 20 db_completed 1 1 (review_body (RInt 5)) =
     (Inr (demo_review 2 5 20 1 1 2), Clean db_reviewed)"
    by (rule alice_reviews_bob)
  note spec = post_review_spec [OF p, of sqlite_integer sym_ops 20]
  from spec [of 1 "review_body (RInt 5)"] run
  have "\<exists>d'. Clean db_reviewed = Clean d'
      \<and> d' = update_user_ranking sym_ops
         (db_completed\<lparr>reviews := reviews db_completed @ [demo_review 2 5 20 1 1 2]\<rparr>)
         (r_reviewee_id (demo_review 2 5 20 1 1 2))"
    by simp
  then have "db_reviewed =
       update_user_ranking sym_ops
         (db_completed\<lparr>reviews := reviews db_completed @ [demo_review 2 5 20 1 1 2]\<rparr>) 2"
    by (simp add: demo_review_def)
  moreover from spec [of 3 "review_body (RInt 5)"] u
  have "post_review sqlite_integer sym_ops 20 db_completed 3 1 (review_body (RInt 5)) =
       (Inl (HttpError 403 ''You are not part of this project''), Clean db_completed)"
    by (simp add: carol_def demo_project_def)
  ultimately show ?thesis using p run by simp
qed
section \<open>Placing a bid\<close>

lemma place_bid_check_unfold:
  assumes "get_project d pid = Some project" and "get_user d actor = Some user"
  shows "place_bid_check d actor pid =
     (if \<not> u_is_freelancer user then Inl (HttpError 403 ''Only freelancers can bid'')
      else if p_status project \<noteq> ''open'' then
        Inl (HttpError 400 ''Project is not open for bidding'')
      else if existing_bid d pid (u_id user) \<noteq> None then
        Inl (HttpError 400 ''You have already placed a bid on this project'')
      else Inr user)"
  by (simp add: place_bid_check_def assms)

lemma place_bid_write_eq:
  "place_bid_write now d user pid data =
     (case bd_amount data of
        None \<Rightarrow> (Inl (uncaught ''KeyError''), d)
      | Some amount \<Rightarrow>
     (case bd_proposal data of
        None \<Rightarrow> (Inl (uncaught ''KeyError''), d)
      | Some proposal \<Rightarrow>
          (Inr \<lparr>b_id = next_id (map b_id (bids d)), b_amount = amount,
                b_proposal = proposal, b_created_at = now, b_project_id = pid,
                b_freelancer_id = u_id user\<rparr>,
           d\<lparr>bids := bids d @ [\<lparr>b_id = next_id (map b_id (bids d)), b_amount = amount,
                b_proposal = proposal, b_created_at = now, b_project_id = pid,
                b_freelancer_id = u_id user\<rparr>]\<rparr>)))"
proof -
  have "insert_row Bid_unique (bids d) new = Inr (bids d @ [new])"
    if "b_id new = next_id (map b_id (bids d))" for new :: "'a bid"
    unfolding Bid_unique_def using that by (rule insert_row_next_id)
  then show ?thesis
    by (simp add: place_bid_write_def Let_def split: option.splits)
qed

lemma place_bid_write_Inr:
  assumes "place_bid_write now d user pid data = (Inr b, d')"
  shows "bd_amount data = Some (b_amount b) \<and> bd_proposal data = Some (b_proposal b)
     \<and> b_id b = next_id (map b_id (bids d)) \<and> b_created_at b = now
     \<and> b_project_id b = pid \<and> b_freelancer_id b = u_id user
     \<and> d' = d\<lparr>bids := bids d @ [b]\<rparr>"
  using assms unfolding place_bid_write_eq by (auto split: option.splits)

lemma place_bid_Inr:
  assumes "get_project d pid = Some project" and "get_user d actor = Some user"
    and "place_bid now d actor pid data = (Inr b, d')"
  shows "u_is_freelancer user \<and> p_status project = ''open''
     \<and> existing_bid d pid (u_id user) = None
     \<and> place_bid_write now d user pid data = (Inr b, d')"
  using assms(3) unfolding place_bid_def place_bid_check_unfold [OF assms(1,2)]
  by (auto split: if_splits)

lemma existing_bid_appended:
  assumes "b_project_id b = pid" and "b_freelancer_id b = uid"
  shows "existing_bid (d\<lparr>bids := bids d @ [b]\<rparr>) pid uid \<noteq> None"
  by (simp add: existing_bid_def find_append_new assms split: option.splits)

text \<open>
  C8, as the code has it. For an existing project and actor: a successful place-bid means
  that the actor is a freelancer, the project is open and the actor had no bid on it; the
  new bid, owned by the actor and carrying the given amount and proposal, is appended to
  the bids, and a second place-bid by the same actor on the same project, made on the
  store the first one left, is rejected as a duplicate. Whenever the actor already has a
  bid on the project, place-bid fails and writes nothing. The guards are checked in this
  order: an actor who is no freelancer gets 403, a project that is not open gets 400
  "Project is not open for bidding", and only then an earlier bid gets the duplicate
  error. So a second bid on a project that is no longer open fails with the state error.
\<close>

theorem place_bid_spec:
  assumes "get_project d pid = Some project" and "get_user d actor = Some user"
  shows
    "(\<forall>b d'. place_bid now d actor pid data = (Inr b, d') \<longrightarrow>
        u_is_freelancer user \<and> p_status project = ''open''
        \<and> existing_bid d pid (u_id user) = None
        \<and> bd_amount data = Some (b_amount b) \<and> bd_proposal data = Some (b_proposal b)
        \<and> b_project_id b = pid \<and> b_freelancer_id b = u_id user
        \<and> d' = d\<lparr>bids := bids d @ [b]\<rparr>
        \<and> (\<forall>now' data'. place_bid now' d' actor pid data' =
              (Inl (HttpError 400 ''You have already placed a bid on this project''), d')))
     \<and> (existing_bid d pid (u_id user) \<noteq> None \<longrightarrow>
          isl (fst (place_bid now d actor pid data)) \<and> snd (place_bid now d actor pid data) = d)
     \<and> (u_is_freelancer user \<and> p_status project = ''open''
          \<and> existing_bid d pid (u_id user) \<noteq> None \<longrightarrow>
        place_bid now d actor pid data =
          (Inl (HttpError 400 ''You have already placed a bid on this project''), d))
     \<and> (\<not> u_is_freelancer user \<longrightarrow>
        place_bid now d actor pid data = (Inl (HttpError 403 ''Only freelancers can bid''), d))
     \<and> (u_is_freelancer user \<and> p_status project \<noteq> ''open'' \<longrightarrow>
        place_bid now d actor pid data =
          (Inl (HttpError 400 ''Project is not open for bidding''), d))"
proof -
  note chk = place_bid_check_unfold [OF assms]
  have ok: "u_is_freelancer user \<and> p_status project = ''open''
        \<and> existing_bid d pid (u_id user) = None
        \<and> bd_amount data = Some (b_amount b) \<and> bd_proposal data = Some (b_proposal b)
        \<and> b_project_id b = pid \<and> b_freelancer_id b = u_id user
        \<and> d' = d\<lparr>bids := bids d @ [b]\<rparr>
        \<and> (\<forall>now' data'. place_bid now' d' actor pid data' =
              (Inl (HttpError 400 ''You have already placed a bid on this project''), d'))"
    if run: "place_bid now d actor pid data = (Inr b, d')" for b d'
  proof -
    from place_bid_Inr [OF assms run] have guards: "u_is_freelancer user"
      "p_status project = ''open''" "existing_bid d pid (u_id user) = None"
      and w: "place_bid_write now d user pid data = (Inr b, d')"
      by simp_all
    from place_bid_write_Inr [OF w] have b: "bd_amount data = Some (b_amount b)"
      "bd_proposal data = Some (b_proposal b)" "b_project_id b = pid"
      "b_freelancer_id b = u_id user" and d': "d' = d\<lparr>bids := bids d @ [b]\<rparr>"
      by simp_all
    have p': "get_project d' pid = Some project" and u': "get_user d' actor = Some user"
      using assms by (simp_all add: d' get_project_def get_user_def)
    have dup: "existing_bid d' pid (u_id user) \<noteq> None"
      unfolding d' by (rule existing_bid_appended [OF b(3,4)])
    have "place_bid now' d' actor pid data' =
        (Inl (HttpError 400 ''You have already placed a bid on this project''), d')"
      for now' data'
      unfolding place_bid_def place_bid_check_unfold [OF p' u'] using guards dup by simp
    with guards b d' show ?thesis by blast
  qed
  have f0: "existing_bid d pid (u_id user) \<noteq> None \<longrightarrow>
      isl (fst (place_bid now d actor pid data)) \<and> snd (place_bid now d actor pid data) = d"
    unfolding place_bid_def chk by simp
  have f1: "u_is_freelancer user \<and> p_status project = ''open''
          \<and> existing_bid d pid (u_id user) \<noteq> None \<longrightarrow>
        place_bid now d actor pid data =
          (Inl (HttpError 400 ''You have already placed a bid on this project''), d)"
    unfolding place_bid_def chk by simp
  have f2: "\<not> u_is_freelancer user \<longrightarrow>
        place_bid now d actor pid data = (Inl (HttpError 403 ''Only freelancers can bid''), d)"
    unfolding place_bid_def chk by simp
  have f3: "u_is_freelancer user \<and> p_status project \<noteq> ''open'' \<longrightarrow>
        place_bid now d actor pid data =
          (Inl (HttpError 400 ''Project is not open for bidding''), d)"
    unfolding place_bid_def chk by simp
  from ok f0 f1 f2 f3 show ?thesis by blast
qed

theorem place_bid_spec_witness:
  "get_project db_open 1 = Some (demo_project 1 ''React shop'' ''open'' 10 1 None)
   \<and> get_user db_open 3 = Some carol
   \<and> place_bid 6 db_open 3 1 bid_body =
       (Inr (demo_bid 2 6 1 3), db_open\<lparr>bids := [demo_bid 1 5 1 2, demo_bid 2 6 1 3]\<rparr>)
   \<and> place_bid 8 (db_open\<lparr>bids := [demo_bid 1 5 1 2, demo_bid 2 6 1 3]\<rparr>) 3 1 bid_body =
       (Inl (HttpError 400 ''You have already placed a bid on this project''),
        db_open\<lparr>bids := [demo_bid 1 5 1 2, demo_bid 2 6 1 3]\<rparr>)
   \<and> place_bid 8 db_open 2 1 bid_body =
       (Inl (HttpError 400 ''You have already placed a bid on this project''), db_open)
   \<and> get_project db_accepted 1 =
       Some (demo_project 1 ''React shop'' ''in_progress'' 10 1 (Some 2))
   \<and> place_bid 8 db_accepted 2 1 bid_body =
       (Inl (HttpError 400 ''Project is not open for bidding''), db_accepted)"
proof -
  have p: "get_project db_open 1 = Some (demo_project 1 ''React shop'' ''open'' 10 1 None)"
    by (simp add: get_project_def db_open_def demo_project_def)
  have u: "get_user db_open 3 = Some carol"
    by (simp add: get_user_def db_open_def alice_def bob_def carol_def)
  have u2: "get_user db_open 2 = Some bob"
    by (simp add: get_user_def db_open_def alice_def bob_def)
  have ex: "existing_bid db_open 1 2 = Some (demo_bid 1 5 1 2)"
    by (simp add: existing_bid_def db_open_def demo_bid_def)
  have pa: "get_project db_accepted 1 =
      Some (demo_project 1 ''React shop'' ''in_progress'' 10 1 (Some 2))"
    by (simp add: get_project_def db_accepted_def demo_project_def)
  have ua: "get_user db_accepted 2 = Some bob"
    by (simp add: get_user_def db_accepted_def alice_def bob_def)
  have run: "place_bid 6 db_open 3 1 bid_body =
       (Inr (demo_bid 2 6 1 3), db_open\<lparr>bids := [demo_bid 1 5 1 2, demo_bid 2 6 1 3]\<rparr>)"
    by (simp add: place_bid_def place_bid_check_def place_bid_write_def demo_defs route_defs
        Let_def)
  from place_bid_spec [OF p u, of 6 bid_body] run
  have "place_bid 8 (db_open\<lparr>bids := [demo_bid 1 5 1 2, demo_bid 2 6 1 3]\<rparr>) 3 1 bid_body =
       (Inl (HttpError 400 ''You have already placed a bid on this project''),
        db_open\<lparr>bids := [demo_bid 1 5 1 2, demo_bid 2 6 1 3]\<rparr>)"
    by blast
  moreover from place_bid_spec [OF p u2, of 8 bid_body] ex
  have "place_bid 8 db_open 2 1 bid_body =
       (Inl (HttpError 400 ''You have already placed a bid on this project''), db_open)"
    by (simp add: bob_def demo_project_def)
  moreover from place_bid_spec [OF pa ua, of 8 bid_body]
  have "place_bid 8 db_accepted 2 1 bid_body =
       (Inl (HttpError 400 ''Project is not open for bidding''), db_accepted)"
    by (simp add: bob_def demo_project_def)
  ultimately show ?thesis using p u pa run by simp
qed

section \<open>A project from creation to a second completion\<close>

text \<open>
  The requests that lead from \<open>db_users\<close> to \<open>reopen9\<close>, each run on the store the one
  before left.
\<close>

lemmas request_defs = create_project_def update_project_def accept_bid_def place_bid_def
  place_bid_check_def place_bid_write_def


lemma bob_bids:
  "place_bid 11 reopen1 2 1 bid_body = (Inr (demo_bid 1 11 1 2), reopen2)"
  by (simp add: request_defs demo_defs route_defs Let_def)

lemma carol_accepts_bob:
  "accept_bid reopen2 3 1 \<lparr>ad_bid_id = Some 1\<rparr> =
     (Inr (demo_project 1 ''Logo'' ''in_progress'' 10 3 (Some 2)), reopen3)"
  by (simp add: request_defs demo_defs route_defs Let_def)







text \<open>
  C8, as the specification has it, fails: Bob bids on Carol's open project and Carol
  accepts the bid. Bob's second bid on the project fails, but not as a duplicate: the
  project is no longer open, and that guard comes first.
\<close>

theorem second_bid_not_duplicate_counterexample:
  "place_bid 11 reopen1 2 1 bid_body = (Inr (demo_bid 1 11 1 2), reopen2)
   \<and> accept_bid reopen2 3 1 \<lparr>ad_bid_id = Some 1\<rparr> =
       (Inr (demo_project 1 ''Logo'' ''in_progress'' 10 3 (Some 2)), reopen3)
   \<and> existing_bid reopen3 1 2 = Some (demo_bid 1 11 1 2)
   \<and> place_bid 14 reopen3 2 1 bid_body =
       (Inl (HttpError 400 ''Project is not open for bidding''), reopen3)
   \<and> HttpError 400 ''Project is not open for bidding'' \<noteq>
       HttpError 400 ''You have already placed a bid on this project''"
proof -
  have "existing_bid reopen3 1 2 = Some (demo_bid 1 11 1 2)"
    by (simp add: demo_defs route_defs)
  moreover have "place_bid 14 reopen3 2 1 bid_body =
       (Inl (HttpError 400 ''Project is not open for bidding''), reopen3)"
    by (simp add: request_defs demo_defs route_defs Let_def)
  ultimately show ?thesis using bob_bids carol_accepts_bob by simp
qed
section \<open>Updating a project\<close>

lemma update_project_unfold:
  assumes "get_project d pid = Some project" and "get_user d actor = Some user"
  shows "update_project d actor pid data =
     (if p_client_id project \<noteq> u_id user then (Inl (HttpError 403 ''Not authorized''), d)
      else
        (Inr (project\<lparr>
           p_title := (case pd_title data of None \<Rightarrow> p_title project | Some t \<Rightarrow> t),
           p_description :=
             (case pd_description data of None \<Rightarrow> p_description project | Some t \<Rightarrow> t),
           p_budget := (case pd_budget data of None \<Rightarrow> p_budget project | Some b \<Rightarrow> b),
           p_status := (case pd_status data of None \<Rightarrow> p_status project | Some s \<Rightarrow> s)\<rparr>),
         d\<lparr>projects := map (\<lambda>p. if p_id p = pid then p\<lparr>
           p_title := (case pd_title data of None \<Rightarrow> p_title project | Some t \<Rightarrow> t),
           p_description :=
             (case pd_description data of None \<Rightarrow> p_description project | Some t \<Rightarrow> t),
           p_budget := (case pd_budget data of None \<Rightarrow> p_budget project | Some b \<Rightarrow> b),
           p_status := (case pd_status data of None \<Rightarrow> p_status project | Some s \<Rightarrow> s)\<rparr>
           else p) (projects d)\<rparr>))"
  using get_project_id [OF assms(1)]
  by (simp add: update_project_def assms Let_def)





section \<open>The freelancer invariant\<close>

lemma project_pk_unique:
  assumes "distinct (map p_id (projects d))" and "get_project d pid = Some project"
    and "q \<in> set (projects d)" and "p_id q = pid"
  shows "q = project"
proof -
  have "project \<in> set (projects d)" using assms(2) unfolding get_project_def by (rule find_in_set)
  moreover have "p_id project = pid" using assms(2) by (rule get_project_id)
  moreover have "inj_on p_id (set (projects d))" using assms(1) by (simp add: distinct_map)
  ultimately show ?thesis using assms(3,4) by (auto dest: inj_onD)
qed

lemma map_update_ids:
  assumes "\<And>p. p_id (upd p) = p_id p"
  shows "map p_id (map (\<lambda>p. if p_id p = pid then upd p else p) ps) = map p_id ps"
  by (induction ps) (simp_all add: assms)

lemma list_all_update_row:
  assumes "distinct (map p_id (projects d))" and "get_project d pid = Some project"
    and "list_all Q (projects d)"
  shows "list_all Q (map (\<lambda>p. if p_id p = pid then upd p else p) (projects d))
         \<longleftrightarrow> Q (upd project)"
proof
  have mem: "project \<in> set (projects d)"
    using assms(2) unfolding get_project_def by (rule find_in_set)
  have id: "p_id project = pid" using assms(2) by (rule get_project_id)
  assume "list_all Q (map (\<lambda>p. if p_id p = pid then upd p else p) (projects d))"
  with mem id show "Q (upd project)" by (auto simp: list_all_iff)
next
  assume u: "Q (upd project)"
  show "list_all Q (map (\<lambda>p. if p_id p = pid then upd p else p) (projects d))"
    unfolding list_all_iff
  proof
    fix x assume "x \<in> set (map (\<lambda>p. if p_id p = pid then upd p else p) (projects d))"
    then obtain q where q: "q \<in> set (projects d)"
      and x: "x = (if p_id q = pid then upd q else q)" by auto
    show "Q x"
    proof (cases "p_id q = pid")
      case True
      with project_pk_unique [OF assms(1,2) q] have "q = project" by simp
      with True x u show ?thesis by simp
    next
      case False
      with x q assms(3) show ?thesis by (simp add: list_all_iff)
    qed
  qed
qed

lemma create_project_inv:
  assumes "distinct (map p_id (projects d))" and "list_all freelancer_inv (projects d)"
  shows "distinct (map p_id (projects (snd (create_project now d actor data))))
     \<and> list_all freelancer_inv (projects (snd (create_project now d actor data)))"
proof -
  have "next_id (map p_id (projects d)) \<notin> set (map p_id (projects d))"
    using next_id_fresh [of "next_id (map p_id (projects d))" "map p_id (projects d)"] by auto
  moreover have "insert_row Project_unique (projects d) new = Inr (projects d @ [new])"
    if "p_id new = next_id (map p_id (projects d))" for new :: "'a project"
    unfolding Project_unique_def using that by (rule insert_row_next_id)
  ultimately show ?thesis using assms
    by (auto simp: create_project_def Let_def freelancer_inv_def split: option.splits)
qed

lemma accept_bid_inv:
  assumes "distinct (map p_id (projects d))" and "list_all freelancer_inv (projects d)"
  shows "distinct (map p_id (projects (snd (accept_bid d actor pid data))))
     \<and> list_all freelancer_inv (projects (snd (accept_bid d actor pid data)))"
proof (cases "\<exists>pr d'. accept_bid d actor pid data = (Inr pr, d')")
  case False
  then have "isl (fst (accept_bid d actor pid data))"
    by (cases "accept_bid d actor pid data", rename_tac a b, case_tac a) auto
  then have "snd (accept_bid d actor pid data) = d" by (rule accept_bid_fail)
  with assms show ?thesis by simp
next
  case True
  then obtain pr d' where run: "accept_bid d actor pid data = (Inr pr, d')" by blast
  then obtain project user where P: "get_project d pid = Some project"
    and U: "get_user d actor = Some user"
    by (auto simp: accept_bid_def split: option.splits)
  from run obtain i bid where i: "ad_bid_id data = Some i" and b: "get_bid d i = Some bid"
    and pr: "pr = project\<lparr>p_freelancer_id := Some (b_freelancer_id bid),
                           p_status := ''in_progress''\<rparr>"
    and d': "d' = d\<lparr>projects := map (\<lambda>p. if p_id p = pid
                     then p\<lparr>p_freelancer_id := Some (b_freelancer_id bid),
                            p_status := ''in_progress''\<rparr> else p) (projects d)\<rparr>"
    unfolding accept_bid_unfold [OF P U] by (auto split: option.splits if_splits)
  have "distinct (map p_id (projects d'))"
    unfolding d' using assms(1) by (simp add: map_update_ids del: map_map)
  moreover have "list_all freelancer_inv (projects d')"
    unfolding d' using list_all_update_row [OF assms(1) P assms(2),
        of "\<lambda>p. p\<lparr>p_freelancer_id := Some (b_freelancer_id bid), p_status := ''in_progress''\<rparr>"]
    by (simp add: freelancer_inv_def)
  ultimately show ?thesis using run by simp
qed

lemma update_project_inv:
  assumes "distinct (map p_id (projects d))" and "list_all freelancer_inv (projects d)"
    and run: "update_project d actor pid data = (Inr p', d')"
  shows "(\<exists>project. get_project d pid = Some project
            \<and> p_freelancer_id p' = p_freelancer_id project
            \<and> p_status p' = (case pd_status data of None \<Rightarrow> p_status project | Some s \<Rightarrow> s))
     \<and> distinct (map p_id (projects d'))
     \<and> (list_all freelancer_inv (projects d') \<longleftrightarrow> freelancer_inv p')"
proof -
  from run obtain project user where P: "get_project d pid = Some project"
    and U: "get_user d actor = Some user"
    by (auto simp: update_project_def split: option.splits)
  define upd :: "'a project \<Rightarrow> 'a project" where "upd = (\<lambda>p. p\<lparr>
           p_title := (case pd_title data of None \<Rightarrow> p_title project | Some t \<Rightarrow> t),
           p_description :=
             (case pd_description data of None \<Rightarrow> p_description project | Some t \<Rightarrow> t),
           p_budget := (case pd_budget data of None \<Rightarrow> p_budget project | Some b \<Rightarrow> b),
           p_status := (case pd_status data of None \<Rightarrow> p_status project | Some s \<Rightarrow> s)\<rparr>)"
  from run have p': "p' = upd project"
    and d': "d' = d\<lparr>projects := map (\<lambda>p. if p_id p = pid then upd p else p) (projects d)\<rparr>"
    unfolding update_project_unfold [OF P U] upd_def by (auto split: if_splits)
  have ids: "p_id (upd p) = p_id p" for p by (simp add: upd_def)
  have "distinct (map p_id (projects d'))"
    unfolding d' using assms(1) by (simp add: map_update_ids [OF ids] del: map_map)
  moreover have "list_all freelancer_inv (projects d') \<longleftrightarrow> freelancer_inv p'"
    unfolding d' p' using list_all_update_row [OF assms(1) P assms(2), of upd] by simp
  moreover have "p_freelancer_id p' = p_freelancer_id project"
    "p_status p' = (case pd_status data of None \<Rightarrow> p_status project | Some s \<Rightarrow> s)"
    by (simp_all add: p' upd_def)
  ultimately show ?thesis using P by blast
qed

lemma update_project_no_status_inv:
  assumes "distinct (map p_id (projects d))" and "list_all freelancer_inv (projects d)"
    and "pd_status data = None"
  shows "list_all freelancer_inv (projects (snd (update_project d actor pid data)))"
proof (cases "fst (update_project d actor pid data)")
  case (Inl e)
  then have "snd (update_project d actor pid data) = d"
    by (intro update_project_fail) simp
  with assms(2) show ?thesis by simp
next
  case (Inr p')
  then have run: "update_project d actor pid data = (Inr p', snd (update_project d actor pid data))"
    by (simp add: prod_eq_iff)
  from update_project_inv [OF assms(1,2) run] obtain project where
    P: "get_project d pid = Some project"
    and f: "p_freelancer_id p' = p_freelancer_id project"
    and s: "p_status p' = p_status project"
    and iff: "list_all freelancer_inv (projects (snd (update_project d actor pid data)))
        \<longleftrightarrow> freelancer_inv p'"
    using assms(3) by auto
  have "project \<in> set (projects d)" using P unfolding get_project_def by (rule find_in_set)
  with assms(2) have "freelancer_inv project" by (simp add: list_all_iff)
  with f s have "freelancer_inv p'" by (simp add: freelancer_inv_def)
  with iff show ?thesis by simp
qed

lemma update_project_distinct:
  assumes "distinct (map p_id (projects d))" and "list_all freelancer_inv (projects d)"
  shows "distinct (map p_id (projects (snd (update_project d actor pid data))))"
proof (cases "fst (update_project d actor pid data)")
  case (Inl e)
  then have "snd (update_project d actor pid data) = d"
    by (intro update_project_fail) simp
  with assms(1) show ?thesis by simp
next
  case (Inr p')
  then have run: "update_project d actor pid data = (Inr p', snd (update_project d actor pid data))"
    by (simp add: prod_eq_iff)
  from update_project_inv [OF assms run] show ?thesis by simp
qed

text \<open>
  C3, as the code has it. The invariant "freelancer is set iff status is in_progress or
  completed", on a store whose project ids are distinct, is preserved by create-project, by
  accept-bid, and by an update-project call that supplies no status. An update-project
  call that supplies a status stores it and leaves the freelancer as it is: afterwards the
  invariant holds on the store exactly when it holds for the updated project.
\<close>

theorem freelancer_inv_steps:
  assumes "distinct (map p_id (projects d))" and "list_all freelancer_inv (projects d)"
  shows
    "distinct (map p_id (projects (snd (create_project now d actor cdata))))
     \<and> list_all freelancer_inv (projects (snd (create_project now d actor cdata)))
     \<and> distinct (map p_id (projects (snd (accept_bid d actor pid adata))))
     \<and> list_all freelancer_inv (projects (snd (accept_bid d actor pid adata)))
     \<and> distinct (map p_id (projects (snd (update_project d actor pid udata))))
     \<and> (pd_status udata = None \<longrightarrow>
          list_all freelancer_inv (projects (snd (update_project d actor pid udata))))
     \<and> (\<forall>p' d'. update_project d actor pid udata = (Inr p', d') \<longrightarrow>
          (\<exists>project. get_project d pid = Some project
              \<and> p_freelancer_id p' = p_freelancer_id project
              \<and> p_status p' =
                  (case pd_status udata of None \<Rightarrow> p_status project | Some s \<Rightarrow> s))
          \<and> (list_all freelancer_inv (projects d') \<longleftrightarrow> freelancer_inv p'))"
  using create_project_inv [OF assms, of now actor cdata]
    accept_bid_inv [OF assms, of actor pid adata]
    update_project_distinct [OF assms, of actor pid udata]
    update_project_no_status_inv [OF assms, of udata actor pid]
    update_project_inv [OF assms, of actor pid udata]
  by blast

theorem freelancer_inv_steps_witness:
  "distinct (map p_id (projects db_open)) \<and> list_all freelancer_inv (projects db_open)
   \<and> list_all freelancer_inv (projects (snd (create_project 11 db_open 1 (project_body ''React shop''))))
   \<and> list_all freelancer_inv (projects (snd (accept_bid db_open 1 1 \<lparr>ad_bid_id = Some 1\<rparr>)))
   \<and> list_all freelancer_inv
        (projects (snd (update_project db_open 1 1 title_body)))"
proof -
  have a: "distinct (map p_id (projects db_open))"
    by (simp add: db_open_def)
  have b: "list_all freelancer_inv (projects db_open)"
    by (simp add: db_open_def demo_project_def freelancer_inv_def)
  have c: "pd_status title_body = None" by (simp add: title_body_def)
  from freelancer_inv_steps [OF a b, of 11 1 "project_body ''React shop''" 1 "\<lparr>ad_bid_id = Some 1\<rparr>"
      title_body] a b c
  show ?thesis by blast
qed

text \<open>
  C3, as the specification states it, fails: on a store without projects Alice creates a
  project and then sets its status to \<open>completed\<close>. Both requests succeed and the project is
  completed without a freelancer.
\<close>

theorem freelancer_inv_counterexample:
  "list_all freelancer_inv (projects db_users)
   \<and> projects (snd (update_project (snd (create_project 10 db_users 1 (project_body ''React shop''))) 1 1
        (status_body ''completed''))) = [demo_project 1 ''React shop'' ''completed'' 10 1 None]
   \<and> \<not> list_all freelancer_inv
        (projects (snd (update_project (snd (create_project 10 db_users 1 (project_body ''React shop''))) 1 1
           (status_body ''completed''))))"
proof -
  have c: "create_project 10 db_users 1 (project_body ''React shop'') =
      (Inr (demo_project 1 ''React shop'' ''open'' 10 1 None),
       db_users\<lparr>projects := [demo_project 1 ''React shop'' ''open'' 10 1 None]\<rparr>)"
    by (simp add: create_project_def demo_defs route_defs Let_def)
  have u: "update_project (db_users\<lparr>projects := [demo_project 1 ''React shop'' ''open'' 10 1 None]\<rparr>)
       1 1 (status_body ''completed'') =
      (Inr (demo_project 1 ''React shop'' ''completed'' 10 1 None),
       db_users\<lparr>projects := [demo_project 1 ''React shop'' ''completed'' 10 1 None]\<rparr>)"
    by (simp add: update_project_def demo_defs route_defs Let_def)
  show ?thesis
    by (simp add: c u) (simp add: db_users_def demo_project_def freelancer_inv_def)
qed

section \<open>Uniqueness at the storage boundary\<close>

lemma insert_user_rejected:
  "insert_row User_unique rows new = Inl (uncaught ''IntegrityError'') \<longleftrightarrow>
     (\<exists>u \<in> set rows. u_id u = u_id new \<or> u_username u = u_username new
        \<or> u_email u = u_email new)"
  by (auto simp: insert_row_def violates_def User_unique_def list_ex_iff)

lemma insert_user_accepted:
  "insert_row User_unique rows new = Inr (rows @ [new]) \<longleftrightarrow>
     \<not> (\<exists>u \<in> set rows. u_id u = u_id new \<or> u_username u = u_username new
          \<or> u_email u = u_email new)"
  by (auto simp: insert_row_def violates_def User_unique_def list_ex_iff)

lemma insert_bid_iff:
  "(insert_row Bid_unique rows b = Inr (rows @ [b]) \<longleftrightarrow> b_id b \<notin> b_id ` set rows)
   \<and> (insert_row Bid_unique rows b = Inl (uncaught ''IntegrityError'') \<longleftrightarrow>
        b_id b \<in> b_id ` set rows)"
  unfolding Bid_unique_def insert_row_key by simp

lemma insert_review_iff:
  "(insert_row Review_unique rows r = Inr (rows @ [r]) \<longleftrightarrow> r_id r \<notin> r_id ` set rows)
   \<and> (insert_row Review_unique rows r = Inl (uncaught ''IntegrityError'') \<longleftrightarrow>
        r_id r \<in> r_id ` set rows)"
  unfolding Review_unique_def insert_row_key by simp

lemma place_bid_duplicate:
  assumes "get_user d actor = Some user" and "existing_bid d pid (u_id user) \<noteq> None"
  shows "isl (fst (place_bid now d actor pid data)) \<and> snd (place_bid now d actor pid data) = d"
  using assms by (simp add: place_bid_def place_bid_check_def split: option.splits)

lemma post_review_for_duplicate:
  assumes "existing_review d pid (u_id user) \<noteq> None"
  shows "isl (fst (post_review_for ic F now d user pid data rv))
     \<and> snd (post_review_for ic F now d user pid data rv) = Clean d"
  using assms by (simp add: post_review_for_def split: option.splits)

lemma post_review_duplicate:
  assumes "get_user d actor = Some user" and "existing_review d pid (u_id user) \<noteq> None"
  shows "isl (fst (post_review ic F now d actor pid data))
     \<and> snd (post_review ic F now d actor pid data) = Clean d"
  using assms post_review_for_duplicate [OF assms(2)]
  by (simp add: post_review_def split: option.splits)

text \<open>Two requests of one freelancer that were both checked on the same store.\<close>

lemma place_bid_write_twice:
  assumes "bd_amount data = Some a" and "bd_proposal data = Some t"
    and "bd_amount data' = Some a'" and "bd_proposal data' = Some t'"
  shows "\<exists>b1 d1 b2 d2. place_bid_write now d user pid data = (Inr b1, d1)
      \<and> place_bid_write now' d1 user pid data' = (Inr b2, d2)
      \<and> b_project_id b1 = pid \<and> b_project_id b2 = pid
      \<and> b_freelancer_id b1 = u_id user \<and> b_freelancer_id b2 = u_id user
      \<and> bids d2 = bids d @ [b1, b2]"
  unfolding place_bid_write_eq by (simp add: assms)

text \<open>
  C2, as the code has it. The store rejects a user whose id, username or email is taken,
  and accepts any other. On Bid and on Review its only constraint is the key: a row is
  accepted exactly when its id is new, whatever project, freelancer or reviewer it names.
  A second bid of a freelancer on a project, and a second review of a reviewer for a
  project, are stopped only by the check that place-bid and post-review make before they
  write: a request that finds the actor's earlier row fails and writes nothing. Two
  place-bid requests of a freelancer that were both checked before either wrote both
  write.
\<close>

theorem storage_uniqueness:
  "(insert_row User_unique (users d) new = Inl (uncaught ''IntegrityError'') \<longleftrightarrow>
      (\<exists>u \<in> set (users d). u_id u = u_id new \<or> u_username u = u_username new
         \<or> u_email u = u_email new))
   \<and> (insert_row User_unique (users d) new = Inr (users d @ [new]) \<longleftrightarrow>
      \<not> (\<exists>u \<in> set (users d). u_id u = u_id new \<or> u_username u = u_username new
           \<or> u_email u = u_email new))
   \<and> (insert_row Bid_unique (bids d) b = Inr (bids d @ [b]) \<longleftrightarrow>
        b_id b \<notin> b_id ` set (bids d))
   \<and> (insert_row Bid_unique (bids d) b = Inl (uncaught ''IntegrityError'') \<longleftrightarrow>
        b_id b \<in> b_id ` set (bids d))
   \<and> (insert_row Review_unique (reviews d) r = Inr (reviews d @ [r]) \<longleftrightarrow>
        r_id r \<notin> r_id ` set (reviews d))
   \<and> (insert_row Review_unique (reviews d) r = Inl (uncaught ''IntegrityError'') \<longleftrightarrow>
        r_id r \<in> r_id ` set (reviews d))
   \<and> (\<forall>user. get_user d actor = Some user \<and> existing_bid d pid (u_id user) \<noteq> None \<longrightarrow>
        isl (fst (place_bid now d actor pid bdata))
        \<and> snd (place_bid now d actor pid bdata) = d)
   \<and> (\<forall>user. get_user d actor = Some user \<and> existing_review d pid (u_id user) \<noteq> None \<longrightarrow>
        isl (fst (post_review ic F now d actor pid vdata))
        \<and> snd (post_review ic F now d actor pid vdata) = Clean d)
   \<and> (\<forall>user a t a' t'. place_bid_check d actor pid = Inr user
          \<and> bd_amount bdata = Some a \<and> bd_proposal bdata = Some t
          \<and> bd_amount bdata' = Some a' \<and> bd_proposal bdata' = Some t' \<longrightarrow>
        (\<exists>b1 d1 b2 d2. place_bid_write now d user pid bdata = (Inr b1, d1)
           \<and> place_bid_write now' d1 user pid bdata' = (Inr b2, d2)
           \<and> b_project_id b1 = pid \<and> b_project_id b2 = pid
           \<and> b_freelancer_id b1 = u_id user \<and> b_freelancer_id b2 = u_id user
           \<and> bids d2 = bids d @ [b1, b2]))"
proof -
  have twice: "\<exists>b1 d1 b2 d2. place_bid_write now d user pid bdata = (Inr b1, d1)
           \<and> place_bid_write now' d1 user pid bdata' = (Inr b2, d2)
           \<and> b_project_id b1 = pid \<and> b_project_id b2 = pid
           \<and> b_freelancer_id b1 = u_id user \<and> b_freelancer_id b2 = u_id user
           \<and> bids d2 = bids d @ [b1, b2]"
    if "place_bid_check d actor pid = Inr user \<and> bd_amount bdata = Some a
        \<and> bd_proposal bdata = Some t \<and> bd_amount bdata' = Some a'
        \<and> bd_proposal bdata' = Some t'" for user a t a' t'
    using that place_bid_write_twice [of bdata a t bdata' a' t' now d user pid now']
    by blast
  have bid: "isl (fst (place_bid now d actor pid bdata))
        \<and> snd (place_bid now d actor pid bdata) = d"
    if "get_user d actor = Some user \<and> existing_bid d pid (u_id user) \<noteq> None" for user
    using that place_bid_duplicate [of d actor user pid now bdata] by blast
  have review: "isl (fst (post_review ic F now d actor pid vdata))
        \<and> snd (post_review ic F now d actor pid vdata) = Clean d"
    if "get_user d actor = Some user \<and> existing_review d pid (u_id user) \<noteq> None" for user
    using that post_review_duplicate [of d actor user pid ic F now vdata] by blast
  from insert_user_rejected [of "users d" new] insert_user_accepted [of "users d" new]
    insert_bid_iff [of "bids d" b] insert_review_iff [of "reviews d" r] twice bid review
  show ?thesis by blast
qed

theorem storage_uniqueness_witness:
  "insert_row User_unique (users db_reviewed)
       (carol\<lparr>u_id := 4, u_email := ''alice@client.com''\<rparr>) =
     Inl (uncaught ''IntegrityError'')
   \<and> insert_row Bid_unique (bids db_reviewed) (demo_bid 2 6 1 2) =
       Inr (bids db_reviewed @ [demo_bid 2 6 1 2])
   \<and> insert_row Bid_unique (bids db_reviewed) (demo_bid 1 6 1 3) =
       Inl (uncaught ''IntegrityError'')
   \<and> insert_row Review_unique (reviews db_reviewed) (demo_review 3 4 30 1 1 2) =
       Inr (reviews db_reviewed @ [demo_review 3 4 30 1 1 2])
   \<and> get_user db_reviewed 1 = Some alice
   \<and> existing_review db_reviewed 1 (u_id alice) \<noteq> None
   \<and> isl (fst (post_review sqlite_integer sym_ops 30 db_reviewed 1 1 (review_body (RInt 4))))
   \<and> snd (post_review sqlite_integer sym_ops 30 db_reviewed 1 1 (review_body (RInt 4))) =
       Clean db_reviewed
   \<and> get_user db_open 2 = Some bob \<and> existing_bid db_open 1 (u_id bob) \<noteq> None
   \<and> isl (fst (place_bid 8 db_open 2 1 bid_body))
   \<and> snd (place_bid 8 db_open 2 1 bid_body) = db_open
   \<and> place_bid_check db_open 3 1 = Inr carol
   \<and> (\<exists>b1 d1 b2 d2. place_bid_write 6 db_open carol 1 bid_body = (Inr b1, d1)
         \<and> place_bid_write 7 d1 carol 1 bid_body = (Inr b2, d2)
         \<and> bids d2 = bids db_open @ [b1, b2])"
proof -
  let ?new = "carol\<lparr>u_id := 4, u_email := ''alice@client.com''\<rparr>"
  have a: "\<exists>u \<in> set (users db_reviewed). u_id u = u_id ?new
      \<or> u_username u = u_username ?new \<or> u_email u = u_email ?new"
    by (simp add: db_reviewed_def alice_def)
  have b1: "b_id (demo_bid 2 6 1 2) \<notin> b_id ` set (bids db_reviewed)"
    and b2: "b_id (demo_bid 1 6 1 3) \<in> b_id ` set (bids db_reviewed)"
    and r1: "r_id (demo_review 3 4 30 1 1 2) \<notin> r_id ` set (reviews db_reviewed)"
    by (simp_all add: db_reviewed_def demo_bid_def demo_review_def)
  have ua: "get_user db_reviewed 1 = Some alice"
    by (simp add: get_user_def db_reviewed_def alice_def)
  have er: "existing_review db_reviewed 1 (u_id alice) \<noteq> None"
    by (simp add: existing_review_def db_reviewed_def demo_review_def alice_def)
  have ub: "get_user db_open 2 = Some bob"
    by (simp add: get_user_def db_open_def alice_def bob_def)
  have eb: "existing_bid db_open 1 (u_id bob) \<noteq> None"
    by (simp add: existing_bid_def db_open_def demo_bid_def bob_def)
  have chk: "place_bid_check db_open 3 1 = Inr carol"
    by (simp add: place_bid_check_def demo_defs route_defs)
  have body: "bd_amount bid_body = Some (FloatLit 90)"
    "bd_proposal bid_body = Some ''I can do it''"
    by (simp_all add: bid_body_def)
  note store = storage_uniqueness [where d = db_reviewed and new = ?new
      and b = "demo_bid 2 6 1 2" and r = "demo_review 3 4 30 1 1 2" and actor = 1
      and pid = 1 and ic = sqlite_integer and F = sym_ops and now = 30 and now' = 31
      and vdata = "review_body (RInt 4)" and bdata = bid_body and bdata' = bid_body]
  note key = storage_uniqueness [where d = db_reviewed and new = ?new
      and b = "demo_bid 1 6 1 3" and r = "demo_review 3 4 30 1 1 2" and actor = 1
      and pid = 1 and ic = sqlite_integer and F = sym_ops and now = 30 and now' = 31
      and vdata = "review_body (RInt 4)" and bdata = bid_body and bdata' = bid_body]
  note bid = storage_uniqueness [where d = db_open and new = ?new
      and b = "demo_bid 2 6 1 2" and r = "demo_review 3 4 30 1 1 2" and actor = 2
      and pid = 1 and ic = sqlite_integer and F = sym_ops and now = 8 and now' = 9
      and vdata = "review_body (RInt 4)" and bdata = bid_body and bdata' = bid_body]
  note twice = storage_uniqueness [where d = db_open and new = ?new
      and b = "demo_bid 2 6 1 2" and r = "demo_review 3 4 30 1 1 2" and actor = 3
      and pid = 1 and ic = sqlite_integer and F = sym_ops and now = 6 and now' = 7
      and vdata = "review_body (RInt 4)" and bdata = bid_body and bdata' = bid_body]
  from store a have "insert_row User_unique (users db_reviewed) ?new =
      Inl (uncaught ''IntegrityError'')"
    by blast
  moreover from store b1 have "insert_row Bid_unique (bids db_reviewed) (demo_bid 2 6 1 2) =
       Inr (bids db_reviewed @ [demo_bid 2 6 1 2])"
    by blast
  moreover from key b2 have "insert_row Bid_unique (bids db_reviewed) (demo_bid 1 6 1 3) =
       Inl (uncaught ''IntegrityError'')"
    by blast
  moreover from store r1
  have "insert_row Review_unique (reviews db_reviewed) (demo_review 3 4 30 1 1 2) =
       Inr (reviews db_reviewed @ [demo_review 3 4 30 1 1 2])"
    by blast
  moreover from store ua er
  have "isl (fst (post_review sqlite_integer sym_ops 30 db_reviewed 1 1 (review_body (RInt 4))))
     \<and> snd (post_review sqlite_integer sym_ops 30 db_reviewed 1 1 (review_body (RInt 4))) =
       Clean db_reviewed"
    by blast
  moreover from bid ub eb
  have "isl (fst (place_bid 8 db_open 2 1 bid_body))
     \<and> snd (place_bid 8 db_open 2 1 bid_body) = db_open"
    by blast
  moreover from twice chk body
  have "\<exists>b1 d1 b2 d2. place_bid_write 6 db_open carol 1 bid_body = (Inr b1, d1)
         \<and> place_bid_write 7 d1 carol 1 bid_body = (Inr b2, d2)
         \<and> bids d2 = bids db_open @ [b1, b2]"
    by blast
  ultimately show ?thesis using ua er ub eb chk by blast
qed

text \<open>
  C2, as the specification states it, fails. Carol has no bid on project 1. Two of her
  place-bid requests both pass the check on the same store, and then both write: the store
  accepts both rows, for the same project and the same freelancer. And the Review table
  accepts a second review of Alice for project 1.
\<close>

theorem bid_pair_not_unique_counterexample:
  "place_bid_check db_open 3 1 = Inr carol
   \<and> place_bid_write 6 db_open carol 1 bid_body =
       (Inr (demo_bid 2 6 1 3), db_open\<lparr>bids := [demo_bid 1 5 1 2, demo_bid 2 6 1 3]\<rparr>)
   \<and> place_bid_write 7 (db_open\<lparr>bids := [demo_bid 1 5 1 2, demo_bid 2 6 1 3]\<rparr>) carol 1
        bid_body =
       (Inr (demo_bid 3 7 1 3),
        db_open\<lparr>bids := [demo_bid 1 5 1 2, demo_bid 2 6 1 3, demo_bid 3 7 1 3]\<rparr>)
   \<and> existing_review db_reviewed 1 1 = Some (demo_review 2 5 20 1 1 2)
   \<and> insert_row Review_unique (reviews db_reviewed) (demo_review 3 4 30 1 1 2) =
       Inr [demo_review 1 4 7 9 3 2, demo_review 2 5 20 1 1 2, demo_review 3 4 30 1 1 2]"
proof -
  have a: "place_bid_check db_open 3 1 = Inr carol"
    by (simp add: place_bid_check_def demo_defs route_defs)
  have b: "place_bid_write 6 db_open carol 1 bid_body =
       (Inr (demo_bid 2 6 1 3), db_open\<lparr>bids := [demo_bid 1 5 1 2, demo_bid 2 6 1 3]\<rparr>)"
    by (simp add: place_bid_write_def demo_defs route_defs Let_def)
  have c: "place_bid_write 7 (db_open\<lparr>bids := [demo_bid 1 5 1 2, demo_bid 2 6 1 3]\<rparr>) carol 1
        bid_body =
       (Inr (demo_bid 3 7 1 3),
        db_open\<lparr>bids := [demo_bid 1 5 1 2, demo_bid 2 6 1 3, demo_bid 3 7 1 3]\<rparr>)"
    by (simp add: place_bid_write_def demo_defs route_defs Let_def)
  have d: "existing_review db_reviewed 1 1 = Some (demo_review 2 5 20 1 1 2)"
    by (simp add: demo_defs route_defs)
  have e: "insert_row Review_unique (reviews db_reviewed) (demo_review 3 4 30 1 1 2) =
       Inr [demo_review 1 4 7 9 3 2, demo_review 2 5 20 1 1 2, demo_review 3 4 30 1 1 2]"
    by (simp add: demo_defs route_defs)
  from a b c d e show ?thesis by simp
qed
section \<open>Serialised users\<close>

lemma get_user_with_password_hashes:
  "get_user (with_password_hashes g d) uid =
     map_option (\<lambda>u. u\<lparr>u_password_hash := g u\<rparr>) (get_user d uid)"
proof -
  have "find (\<lambda>u. u_id u = uid) (map (\<lambda>u. u\<lparr>u_password_hash := g u\<rparr>) us) =
      map_option (\<lambda>u. u\<lparr>u_password_hash := g u\<rparr>) (find (\<lambda>u. u_id u = uid) us)" for us
    by (induction us) simp_all
  then show ?thesis by (simp add: get_user_def with_password_hashes_def)
qed

lemma UserPublicSchema_dump_hash [simp]:
  "UserPublicSchema_dump (u\<lparr>u_password_hash := h\<rparr>) = UserPublicSchema_dump u"
  by (simp add: UserPublicSchema_dump_def User_columns_def UserPublicSchema_fields_def)

lemma nested_user_hash [simp]:
  "nested_user (with_password_hashes g d) fk = nested_user d fk"
  by (cases fk; cases "get_user d (the fk)")
    (simp_all add: nested_user_def get_user_with_password_hashes)

lemma with_password_hashes_tables [simp]:
  "projects (with_password_hashes g d) = projects d"
  "bids (with_password_hashes g d) = bids d"
  "reviews (with_password_hashes g d) = reviews d"
  by (simp_all add: with_password_hashes_def)

lemma ReviewSchema_dump_hash [simp]:
  "ReviewSchema_dump (with_password_hashes g d) r = ReviewSchema_dump d r"
  by (simp add: ReviewSchema_dump_def)

lemma BidSchema_dump_hash [simp]:
  "BidSchema_dump (with_password_hashes g d) b = BidSchema_dump d b"
  by (simp add: BidSchema_dump_def)

lemma ProjectSchema_dump_hash:
  "ProjectSchema_dump (with_password_hashes g d) p = ProjectSchema_dump d p"
  by (simp add: ProjectSchema_dump_def)

lemma UserSchema_dump_hash:
  "UserSchema_dump (with_password_hashes g d) (u\<lparr>u_password_hash := h\<rparr>) = UserSchema_dump d u"
  by (simp add: UserSchema_dump_def User_columns_def UserSchema_exclude_def reviews_received_def)

lemma json_keys_opt [simp]: "json_keys (opt_str x) = []" "json_keys (opt_int y) = []"
  by (simp_all add: opt_str_def opt_int_def split: option.splits)

lemma keys_UserPublicSchema:
  "json_keys (UserPublicSchema_dump u) = [''id'', ''username'', ''is_freelancer'', ''ranking_score'']"
  by (simp add: UserPublicSchema_dump_def User_columns_def UserPublicSchema_fields_def)

lemma keys_nested_user: "''password_hash'' \<notin> set (json_keys (nested_user d fk))"
  by (simp add: nested_user_def keys_UserPublicSchema split: option.splits)

lemma keys_ReviewSchema: "''password_hash'' \<notin> set (json_keys (ReviewSchema_dump d r))"
  using keys_nested_user [of d]
  by (simp add: ReviewSchema_dump_def Review_columns_def)

lemma keys_BidSchema: "''password_hash'' \<notin> set (json_keys (BidSchema_dump d b))"
  using keys_nested_user [of d]
  by (simp add: BidSchema_dump_def Bid_columns_def)

lemma keys_ProjectSchema: "''password_hash'' \<notin> set (json_keys (ProjectSchema_dump d p))"
  using keys_nested_user [of d] keys_BidSchema [of d] keys_ReviewSchema [of d]
  by (simp add: ProjectSchema_dump_def Project_columns_def)

lemma keys_UserSchema: "''password_hash'' \<notin> set (json_keys (UserSchema_dump d u))"
  using keys_ReviewSchema [of d]
  by (simp add: UserSchema_dump_def User_columns_def UserSchema_exclude_def)

text \<open>
  C9. No dump depends on a credential digest: the full dump of a user, the public
  projection nested in other dumps, and the dumps of projects, bids and reviews are the
  same when the user's digest, and the digest of every user in the store, is replaced by
  anything else. The key \<open>password_hash\<close> occurs in none of them, at any depth.
\<close>

theorem dumps_omit_password_hash:
  "UserSchema_dump (with_password_hashes g d) (u\<lparr>u_password_hash := h\<rparr>) = UserSchema_dump d u
   \<and> UserPublicSchema_dump (u\<lparr>u_password_hash := h\<rparr>) = UserPublicSchema_dump u
   \<and> ProjectSchema_dump (with_password_hashes g d) p = ProjectSchema_dump d p
   \<and> BidSchema_dump (with_password_hashes g d) b = BidSchema_dump d b
   \<and> ReviewSchema_dump (with_password_hashes g d) r = ReviewSchema_dump d r
   \<and> ''password_hash'' \<notin> set (json_keys (UserSchema_dump d u))
   \<and> ''password_hash'' \<notin> set (json_keys (UserPublicSchema_dump u))
   \<and> ''password_hash'' \<notin> set (json_keys (ProjectSchema_dump d p))
   \<and> ''password_hash'' \<notin> set (json_keys (BidSchema_dump d b))
   \<and> ''password_hash'' \<notin> set (json_keys (ReviewSchema_dump d r))"
  by (simp add: UserSchema_dump_hash ProjectSchema_dump_hash keys_UserSchema
      keys_ProjectSchema keys_BidSchema keys_ReviewSchema keys_UserPublicSchema)

theorem dumps_omit_password_hash_witness:
  "UserSchema_dump (with_password_hashes (\<lambda>u. ''x'') db_completed) (bob\<lparr>u_password_hash := ''y''\<rparr>)
     = UserSchema_dump db_completed bob
   \<and> UserSchema_dump db_completed bob =
      JObj [(''id'', JInt 2), (''username'', JStr ''bob''), (''email'', JStr ''bob@dev.com''),
            (''is_freelancer'', JBool True), (''bio'', JNull), (''skills'', JStr ''React''),
            (''ranking_score'', JFloat (FloatLit 0)),
            (''reviews_received'', JList [JObj [(''id'', JInt 1), (''rating'', JInt 4),
               (''comment'', JNull), (''created_at'', JInt 7), (''project_id'', JInt 9),
               (''reviewer_id'', JInt 3), (''reviewee_id'', JInt 2),
               (''reviewer'', JObj [(''id'', JInt 3), (''username'', JStr ''carol''),
                  (''is_freelancer'', JBool True), (''ranking_score'', JFloat (FloatLit 0))]),
               (''reviewee'', JObj [(''id'', JInt 2), (''username'', JStr ''bob''),
                  (''is_freelancer'', JBool True), (''ranking_score'', JFloat (FloatLit 0))])]])]"
proof -
  have "UserSchema_dump db_completed bob =
      JObj [(''id'', JInt 2), (''username'', JStr ''bob''), (''email'', JStr ''bob@dev.com''),
            (''is_freelancer'', JBool True), (''bio'', JNull), (''skills'', JStr ''React''),
            (''ranking_score'', JFloat (FloatLit 0)),
            (''reviews_received'', JList [JObj [(''id'', JInt 1), (''rating'', JInt 4),
               (''comment'', JNull), (''created_at'', JInt 7), (''project_id'', JInt 9),
               (''reviewer_id'', JInt 3), (''reviewee_id'', JInt 2),
               (''reviewer'', JObj [(''id'', JInt 3), (''username'', JStr ''carol''),
                  (''is_freelancer'', JBool True), (''ranking_score'', JFloat (FloatLit 0))]),
               (''reviewee'', JObj [(''id'', JInt 2), (''username'', JStr ''bob''),
                  (''is_freelancer'', JBool True), (''ranking_score'', JFloat (FloatLit 0))])]])]"
    by (simp add: UserSchema_dump_def User_columns_def UserSchema_exclude_def
        ReviewSchema_dump_def Review_columns_def nested_user_def UserPublicSchema_dump_def
        UserPublicSchema_fields_def reviews_received_def get_user_def opt_str_def
        db_completed_def alice_def bob_def carol_def demo_review_def)
  with dumps_omit_password_hash [where g = "\<lambda>u. ''x''" and d = db_completed and u = bob
      and h = "''y''"]
  show ?thesis by simp
qed

section \<open>Listing projects\<close>

lemma sql_like_percent_only [simp]: "sql_like cf [CHR ''%''] t"
  by (induction t) simp_all

lemma sql_like_percent:
  "sql_like cf (CHR ''%'' # p) t \<longleftrightarrow> (\<exists>i \<le> length t. sql_like cf p (drop i t))"
proof (induction t)
  case Nil
  show ?case by (cases p) simp_all
next
  case (Cons x s)
  have "(\<exists>i \<le> length (x # s). sql_like cf p (drop i (x # s))) \<longleftrightarrow>
      sql_like cf p (x # s) \<or> (\<exists>i \<le> length s. sql_like cf p (drop i s))"
  proof
    assume "\<exists>i \<le> length (x # s). sql_like cf p (drop i (x # s))"
    then obtain i where i: "i \<le> length (x # s)" "sql_like cf p (drop i (x # s))" by blast
    show "sql_like cf p (x # s) \<or> (\<exists>i \<le> length s. sql_like cf p (drop i s))"
    proof (cases i)
      case 0
      with i show ?thesis by simp
    next
      case (Suc j)
      with i have "j \<le> length s" "sql_like cf p (drop j s)" by simp_all
      then show ?thesis by blast
    qed
  next
    assume "sql_like cf p (x # s) \<or> (\<exists>i \<le> length s. sql_like cf p (drop i s))"
    then show "\<exists>i \<le> length (x # s). sql_like cf p (drop i (x # s))"
    proof
      assume "sql_like cf p (x # s)"
      then have "0 \<le> length (x # s) \<and> sql_like cf p (drop 0 (x # s))" by simp
      then show ?thesis by blast
    next
      assume "\<exists>i \<le> length s. sql_like cf p (drop i s)"
      then obtain j where "j \<le> length s" "sql_like cf p (drop j s)" by blast
      then have "Suc j \<le> length (x # s) \<and> sql_like cf p (drop (Suc j) (x # s))" by simp
      then show ?thesis by blast
    qed
  qed
  with Cons show ?case by simp
qed

lemma sql_like_literal:
  assumes "CHR ''%'' \<notin> set q" and "CHR ''_'' \<notin> set q"
  shows "sql_like cf (q @ p) t \<longleftrightarrow>
     (map cf (take (length q) t) = map cf q \<and> sql_like cf p (drop (length q) t))"
  using assms
proof (induction q arbitrary: t)
  case Nil
  show ?case by simp
next
  case (Cons c q)
  then have c: "c \<noteq> CHR ''%''" "c \<noteq> CHR ''_''" and q: "CHR ''%'' \<notin> set q" "CHR ''_'' \<notin> set q"
    by auto
  show ?case
  proof (cases t)
    case Nil
    with c show ?thesis by simp
  next
    case (Cons x s)
    with c Cons.IH [OF q, of s] show ?thesis by auto
  qed
qed

lemma contains_folded_iff:
  "contains_folded cf s t \<longleftrightarrow> (\<exists>i \<le> length t. map cf (take (length s) (drop i t)) = map cf s)"
proof -
  have "set [0 ..< Suc (length t)] = {i. i \<le> length t}" by auto
  then show ?thesis by (simp add: contains_folded_def list_ex_iff)
qed

lemma sql_like_contains:
  assumes "CHR ''%'' \<notin> set q" and "CHR ''_'' \<notin> set q"
  shows "sql_like cf (CHR ''%'' # q @ [CHR ''%'']) t \<longleftrightarrow> contains_folded cf q t"
proof -
  have "sql_like cf (CHR ''%'' # q @ [CHR ''%'']) t \<longleftrightarrow>
      (\<exists>i \<le> length t. sql_like cf (q @ [CHR ''%'']) (drop i t))"
    by (rule sql_like_percent)
  also have "\<dots> \<longleftrightarrow> (\<exists>i \<le> length t. map cf (take (length q) (drop i t)) = map cf q)"
    by (simp add: sql_like_literal [OF assms])
  also have "\<dots> \<longleftrightarrow> contains_folded cf q t"
    by (simp add: contains_folded_iff)
  finally show ?thesis .
qed

lemma get_projects_filter:
  "get_projects cf d (Some s) =
     sort_key (\<lambda>p. - p_created_at p)
       (filter (\<lambda>p. p_status p = ''open'' \<and>
           (s = [] \<or> sql_like cf (CHR ''%'' # s @ [CHR ''%'']) (p_description p))) (projects d))"
  by (cases "s = []") (simp_all add: get_projects_def Let_def conj_commute)

lemma newest_first:
  "sorted_wrt (\<lambda>a b. a \<ge> b) (map p_created_at (sort_key (\<lambda>p. - p_created_at p) ps))"
proof -
  have "sorted (map (\<lambda>p. - p_created_at p) (sort_key (\<lambda>p. - p_created_at p) ps))"
    by (rule sorted_sort_key)
  then show ?thesis by (simp add: sorted_wrt_map)
qed

text \<open>
  C6, as the code has it. With a filter, the listing is the open projects whose
  description matches the \<open>LIKE\<close> pattern \<open>%filter%\<close> (all open projects for the empty
  filter), newest first. For a non-empty filter without \<open>%\<close> and \<open>_\<close> these are exactly
  the open projects whose description contains the filter as a substring, up to the case
  folding that the storage engine applies in \<open>LIKE\<close>. Without a filter the listing is all
  open projects, newest first.
\<close>

theorem get_projects_spec:
  "get_projects cf d (Some s) =
     sort_key (\<lambda>p. - p_created_at p)
       (filter (\<lambda>p. p_status p = ''open'' \<and>
           (s = [] \<or> sql_like cf (CHR ''%'' # s @ [CHR ''%'']) (p_description p))) (projects d))
   \<and> (s \<noteq> [] \<and> CHR ''%'' \<notin> set s \<and> CHR ''_'' \<notin> set s \<longrightarrow>
        mset (get_projects cf d (Some s)) =
        mset (filter (\<lambda>p. p_status p = ''open'' \<and> contains_folded cf s (p_description p))
               (projects d)))
   \<and> sorted_wrt (\<lambda>a b. a \<ge> b) (map p_created_at (get_projects cf d (Some s)))
   \<and> get_projects cf d None =
       sort_key (\<lambda>p. - p_created_at p) (filter (\<lambda>p. p_status p = ''open'') (projects d))"
proof -
  have "mset (get_projects cf d (Some s)) =
        mset (filter (\<lambda>p. p_status p = ''open'' \<and> contains_folded cf s (p_description p))
               (projects d))"
    if "s \<noteq> []" "CHR ''%'' \<notin> set s" "CHR ''_'' \<notin> set s"
    using that by (simp add: get_projects_filter sql_like_contains)
  moreover have "sorted_wrt (\<lambda>a b. a \<ge> b) (map p_created_at (get_projects cf d (Some s)))"
    unfolding get_projects_filter by (rule newest_first)
  moreover have "get_projects cf d None =
       sort_key (\<lambda>p. - p_created_at p) (filter (\<lambda>p. p_status p = ''open'') (projects d))"
    by (simp add: get_projects_def)
  ultimately show ?thesis using get_projects_filter [of cf d s] by blast
qed

theorem get_projects_spec_witness:
  "''React'' \<noteq> [] \<and> CHR ''%'' \<notin> set ''React'' \<and> CHR ''_'' \<notin> set ''React''
   \<and> get_projects ascii_lower db_listing (Some ''React'') =
       [demo_project 3 ''Need REACT dev'' ''open'' 30 1 None,
        demo_project 1 ''React shop'' ''open'' 10 1 None]
   \<and> mset (get_projects ascii_lower db_listing (Some ''React'')) =
       mset (filter (\<lambda>p. p_status p = ''open''
               \<and> contains_folded ascii_lower ''React'' (p_description p)) (projects db_listing))"
proof -
  have run: "get_projects ascii_lower db_listing (Some ''React'') =
       [demo_project 3 ''Need REACT dev'' ''open'' 30 1 None,
        demo_project 1 ''React shop'' ''open'' 10 1 None]"
    by (simp add: get_projects_def db_listing_def demo_project_def ascii_lower_def Let_def)
  have plain: "''React'' \<noteq> [] \<and> CHR ''%'' \<notin> set ''React'' \<and> CHR ''_'' \<notin> set ''React''"
    by simp
  from get_projects_spec [of ascii_lower db_listing "''React''"] plain
  have "mset (get_projects ascii_lower db_listing (Some ''React'')) =
       mset (filter (\<lambda>p. p_status p = ''open''
               \<and> contains_folded ascii_lower ''React'' (p_description p)) (projects db_listing))"
    by blast
  with plain run show ?thesis by blast
qed

text \<open>
  C6, as the specification states it, fails: \<open>_\<close> in the filter stands for any character.
  The filter \<open>_ue\<close> lists the project "Vue site", whose description does not contain
  \<open>_ue\<close>.
\<close>

theorem get_projects_counterexample:
  "get_projects ascii_lower db_listing (Some ''_ue'') =
     [demo_project 2 ''Vue site'' ''open'' 20 1 None]
   \<and> \<not> contains_folded ascii_lower ''_ue''
         (p_description (demo_project 2 ''Vue site'' ''open'' 20 1 None))"
proof -
  have "get_projects ascii_lower db_listing (Some ''_ue'') =
     [demo_project 2 ''Vue site'' ''open'' 20 1 None]"
    by (simp add: get_projects_def db_listing_def demo_project_def ascii_lower_def Let_def)
  moreover have "\<not> contains_folded ascii_lower ''_ue''
         (p_description (demo_project 2 ''Vue site'' ''open'' 20 1 None))"
    by (simp add: contains_folded_def demo_project_def ascii_lower_def)
  ultimately show ?thesis by simp
qed

end
